theory Spec2Isabelle
  imports Complex_Main "HOL-Library.AList"
begin

section \<open>The training script \<^verbatim>\<open>train_apex.py\<close>\<close>

text \<open>
  The script orchestrates calls into PyTorch, Apex, NumPy and the operating system.
  Those libraries are collaborators outside the repository: they are a parameter of
  every definition here (the record \<open>lib\<close>), and each call the script makes to them is
  recorded, in order, in a trace. What the script itself computes (paths, the step and
  epoch counters, the loss histories, the best evaluation loss, the checkpoint
  dictionary, the log line) is modelled in full. Losses are Python floats; they are
  modelled as reals. Console output (\<^verbatim>\<open>print\<close>, the progress bar) is not modelled.
\<close>

subsection \<open>Exceptions and parsed arguments\<close>

datatype exn =
    KeyError | ValueError | StopIteration | ZeroDivisionError
  | FileNotFoundError | RuntimeError | OtherError

text \<open>
  The namespace returned by \<^verbatim>\<open>parser.parse_args()\<close> (lines 40-60). The options
  \<^verbatim>\<open>--log\<close> and \<^verbatim>\<open>--loss\<close> are the fields \<open>log_dir\<close> and \<open>loss_dir\<close>.
\<close>

record args =
  local_rank :: int
  data_path :: string
  sample_path :: string
  save :: string
  load_step :: int
  log_dir :: string
  model_name :: string
  epochs :: int
  batch_size :: int
  learning_rate :: real
  loss_dir :: string
  n_layer :: int
  n_flow :: int
  n_block :: int
  cin_channels :: int
  hidden_channels :: int
  block_per_split :: int
  num_workers :: int

text \<open>The defaults of the parser (what a launch with no option gives).\<close>

definition default_args :: args where
  "default_args = \<lparr> local_rank = 0, data_path = ''./DATASETS/ljspeech/'',
     sample_path = ''./samples'', save = ''./params'', load_step = 0,
     log_dir = ''./log'', model_name = ''flowavenet'', epochs = 5000, batch_size = 2,
     learning_rate = 1 / 1000, loss_dir = ''./loss'', n_layer = 2, n_flow = 6, n_block = 8,
     cin_channels = 80, hidden_channels = 256, block_per_split = 4, num_workers = 2 \<rparr>"

subsection \<open>Strings and paths\<close>

text \<open>\<^verbatim>\<open>'{}'.format(n)\<close> and \<^verbatim>\<open>'{:09d}'.format(n)\<close> for a Python int.\<close>

fun digits :: "nat \<Rightarrow> string" where
  "digits n = (if n < 10 then [''0123456789'' ! n]
               else digits (n div 10) @ [''0123456789'' ! (n mod 10)])"

declare digits.simps [simp del]

definition str_int :: "int \<Rightarrow> string" where
  "str_int i = (if i < 0 then CHR ''-'' # digits (nat (- i)) else digits (nat i))"

definition format_09d :: "int \<Rightarrow> string" where
  "format_09d i =
     (let ds = digits (nat \<bar>i\<bar>);
          sign = (if i < 0 then ''-'' else [])
      in sign @ replicate (9 - length sign - length ds) CHR ''0'' @ ds)"

text \<open>\<^verbatim>\<open>os.path.join\<close> on POSIX: an absolute component discards what precedes it.\<close>

definition path_join :: "string \<Rightarrow> string \<Rightarrow> string" where
  "path_join a b =
     (if b \<noteq> [] \<and> hd b = CHR ''/'' then b
      else if a = [] \<or> last a = CHR ''/'' then a @ b
      else a @ ''/'' @ b)"

definition checkpoint_path :: "args \<Rightarrow> int \<Rightarrow> string" where
  "checkpoint_path A step =
     path_join (path_join (save A) (model_name A))
       (''checkpoint_step'' @ format_09d step @ ''.pth'')"

definition train_npy_path :: "args \<Rightarrow> string" where
  "train_npy_path A = loss_dir A @ ''/'' @ model_name A @ ''_train.npy''"

definition eval_npy_path :: "args \<Rightarrow> string" where
  "eval_npy_path A = loss_dir A @ ''/'' @ model_name A @ ''.npy''"

definition log_file_path :: "args \<Rightarrow> string" where
  "log_file_path A = path_join (log_dir A) (model_name A @ ''.txt'')"

definition wav_name :: "args \<Rightarrow> int \<Rightarrow> int \<Rightarrow> string" where
  "wav_name A gstep batch_idx =
     sample_path A @ ''/'' @ model_name A @ ''/generate_'' @ str_int gstep @ ''_''
       @ str_int batch_idx @ ''.wav''"


subsection \<open>Python values the script builds itself\<close>

text \<open>Python slicing \<^verbatim>\<open>xs[:n]\<close>, also for a negative bound.\<close>

definition py_take :: "int \<Rightarrow> 'a list \<Rightarrow> 'a list" where
  "py_take n xs = (if 0 \<le> n then take (nat n) xs else take (length xs - nat (- n)) xs)"

text \<open>Python slicing \<^verbatim>\<open>k[7:]\<close> on a string.\<close>

definition strip_module :: "string \<Rightarrow> string" where
  "strip_module k = drop 7 k"

text \<open>
  The loop of lines 244-247: an ordered dictionary filled key by key, a later value for
  a key that is already there replacing the earlier one in place.
\<close>

fun new_state_dict :: "(string \<times> 'p) list \<Rightarrow> (string \<times> 'p) list \<Rightarrow> (string \<times> 'p) list" where
  "new_state_dict [] acc = acc"
| "new_state_dict ((k, v) # kvs) acc = new_state_dict kvs (AList.update (strip_module k) v acc)"

text \<open>The dictionary \<^verbatim>\<open>torch.save\<close> receives in \<^verbatim>\<open>save_checkpoint\<close>.\<close>

record 'p checkpoint =
  ck_state_dict :: "(string \<times> 'p) list"
  ck_optimizer :: 'p
  ck_scheduler :: 'p
  ck_global_step :: int
  ck_global_epoch :: int

text \<open>The values of the dictionary that becomes a line of the log file.\<close>

datatype pyval = PInt int | PFloat real | PStr string

text \<open>\<^verbatim>\<open>args._get_kwargs()\<close>: every parsed argument with its name.\<close>

definition get_kwargs :: "args \<Rightarrow> (string \<times> pyval) list" where
  "get_kwargs A =
     [(''batch_size'', PInt (batch_size A)),
      (''block_per_split'', PInt (block_per_split A)),
      (''cin_channels'', PInt (cin_channels A)),
      (''data_path'', PStr (data_path A)),
      (''epochs'', PInt (epochs A)),
      (''hidden_channels'', PInt (hidden_channels A)),
      (''learning_rate'', PFloat (learning_rate A)),
      (''load_step'', PInt (load_step A)),
      (''local_rank'', PInt (local_rank A)),
      (''log'', PStr (log_dir A)),
      (''loss'', PStr (loss_dir A)),
      (''model_name'', PStr (model_name A)),
      (''n_block'', PInt (n_block A)),
      (''n_flow'', PInt (n_flow A)),
      (''n_layer'', PInt (n_layer A)),
      (''num_workers'', PInt (num_workers A)),
      (''sample_path'', PStr (sample_path A)),
      (''save'', PStr (save A))]"

text \<open>Lines 317-320: the dictionary comprehension and the three assignments.\<close>

definition log_state :: "args \<Rightarrow> real \<Rightarrow> real \<Rightarrow> int \<Rightarrow> (string \<times> pyval) list" where
  "log_state A training_epoch_loss test_epoch_loss epoch =
     AList.update ''epoch'' (PInt epoch)
       (AList.update ''eval_loss'' (PFloat test_epoch_loss)
         (AList.update ''training_loss'' (PFloat training_epoch_loss) (get_kwargs A)))"

subsection \<open>The libraries, as a parameter\<close>

text \<open>
  \<open>'m\<close>, \<open>'o\<close> and \<open>'s\<close> are the model, optimizer and scheduler objects, \<open>'b\<close> a batch
  \<open>(x, c)\<close> of a data loader, \<open>'p\<close> a value the libraries hand out for storage (a
  tensor, an optimizer or scheduler state dictionary, a waveform). The optimizer holds
  the model's parameters and the scheduler holds the optimizer, so the calls of a
  training step act on the three objects together.
\<close>

type_synonym ('m, 'o, 's) objs = "'m \<times> 'o \<times> 's"

record ('m, 'o, 's, 'b, 'p) lib =
  py_int :: "string \<Rightarrow> exn + int"
  isdir :: "string list \<Rightarrow> string \<Rightarrow> bool"
  Flowavenet :: "int \<Rightarrow> int \<Rightarrow> int \<Rightarrow> int \<Rightarrow> int \<Rightarrow> int \<Rightarrow> bool \<Rightarrow> bool \<Rightarrow> int \<Rightarrow> 'm"
  Adam :: "'m \<Rightarrow> real \<Rightarrow> 'o"
  StepLR :: "'o \<Rightarrow> int \<Rightarrow> real \<Rightarrow> 's"
  train_loader :: "int \<Rightarrow> 'b list"
  test_loader :: "'b list"
  synth_loader :: "'b list"
  forward :: "'m \<Rightarrow> 'b \<Rightarrow> real \<times> real"
  init_forward :: "'m \<Rightarrow> 'b \<Rightarrow> 'm"
  amp_initialize :: "'m \<Rightarrow> 'o \<Rightarrow> string \<Rightarrow> 'm \<times> 'o"
  DistributedDataParallel :: "'m \<Rightarrow> 'm"
  set_training :: "bool \<Rightarrow> 'm \<Rightarrow> 'm"
  scheduler_step :: "('m, 'o, 's) objs \<Rightarrow> ('m, 'o, 's) objs"
  zero_grad :: "('m, 'o, 's) objs \<Rightarrow> ('m, 'o, 's) objs"
  scale_loss_backward :: "'b \<Rightarrow> ('m, 'o, 's) objs \<Rightarrow> ('m, 'o, 's) objs"
  clip_grad_norm :: "real \<Rightarrow> ('m, 'o, 's) objs \<Rightarrow> ('m, 'o, 's) objs"
  optimizer_step :: "('m, 'o, 's) objs \<Rightarrow> ('m, 'o, 's) objs"
  state_dict :: "'m \<Rightarrow> (string \<times> 'p) list"
  load_state_dict :: "'m \<Rightarrow> (string \<times> 'p) list \<Rightarrow> exn option \<times> 'm"
  optimizer_state_dict :: "'o \<Rightarrow> 'p"
  optimizer_load_state_dict :: "'o \<Rightarrow> 'p \<Rightarrow> 'o"
  scheduler_state_dict :: "'s \<Rightarrow> 'p"
  scheduler_load_state_dict :: "'s \<Rightarrow> 'p \<Rightarrow> 's"
  reverse :: "'m \<Rightarrow> 'b \<Rightarrow> 'p"

text \<open>
  \<open>py_int\<close> is Python's \<^verbatim>\<open>int\<close> on a string; \<open>isdir made p\<close> answers
  \<^verbatim>\<open>os.path.isdir(p)\<close> after the directories \<open>made\<close> were created by this process;
  \<open>train_loader e\<close> is the list of batches the training loader yields to this process
  when its sampler's epoch is \<open>e\<close>; \<open>forward m b\<close> is the pair of means
  \<^verbatim>\<open>(torch.mean(log_p), torch.mean(logdet))\<close> of \<^verbatim>\<open>model(x, c)\<close>;
  \<open>init_forward\<close> is what the first forward pass does to the model (the
  initialisation of its ActNorm layers); \<open>load_state_dict m sd\<close> is the exception
  \<^verbatim>\<open>model.load_state_dict(sd)\<close> raised, if any, and the model it left (a strict load
  copies the entries that match before it raises); \<open>reverse m b\<close> is the waveform
  \<^verbatim>\<open>model.module.reverse(z, c)\<close> for a sampled \<open>z\<close>.
\<close>

subsection \<open>Calls to the libraries, and the state of the process\<close>

datatype loader = Train_loader | Test_loader | Synth_loader

datatype 'b event =
    Parse_args
  | Init_process_group int int
  | Set_device int
  | Makedirs string
  | New_dataset string bool
  | New_sampler
  | New_loader loader
  | New_model bool
  | New_Adam real
  | New_StepLR int real
  | Init_forward 'b
  | Amp_init string
  | Wrap_DDP
  | Torch_load string
  | Load_model_state bool
  | Load_optimizer_state
  | Load_scheduler_state
  | Np_load string
  | Set_epoch int
  | Model_train
  | Model_eval
  | Scheduler_step
  | Zero_grad
  | Forward 'b real real
  | Forward_no_grad 'b
  | Scaled_backward real
  | Clip_grad_norm real
  | Optimizer_step
  | Gc_collect
  | Torch_save string
  | Reverse 'b
  | Write_wav string
  | Np_save string
  | Log_append string

text \<open>
  \<open>Load_model_state stripped\<close> is a call of \<^verbatim>\<open>model.load_state_dict\<close>, with the
  stored dictionary (\<open>False\<close>) or with the one whose keys were cut (\<open>True\<close>).
  \<open>Init_forward\<close> is the forward pass of lines 269-272 on the first training batch.
  \<open>Forward b log_p logdet\<close> is a forward pass of a training step with the two means
  it returned; \<open>Forward_no_grad\<close> one of \<^verbatim>\<open>evaluate\<close>, under \<^verbatim>\<open>torch.no_grad()\<close>.
  \<open>New_sampler\<close> is \<^verbatim>\<open>DistributedSampler(train_dataset)\<close>, and
  \<open>New_loader Train_loader\<close> the loader built on it.
  \<open>Scaled_backward loss\<close> is \<^verbatim>\<open>amp.scale_loss(loss, optimizer)\<close> with the backward
  pass on the scaled loss; \<open>Clip_grad_norm c\<close> is
  \<^verbatim>\<open>clip_grad_norm_(amp.master_params(optimizer), c)\<close>.
\<close>

text \<open>
  The files are kept by kind: checkpoints (\<^verbatim>\<open>.pth\<close>), arrays (\<^verbatim>\<open>.npy\<close>), logs
  (\<^verbatim>\<open>.txt\<close>, a list of lines) and samples (\<^verbatim>\<open>.wav\<close>).
\<close>

record ('m, 'o, 's, 'b, 'p) pstate =
  model :: 'm
  optimizer :: 'o
  scheduler :: 's
  sampler_epoch :: int
  global_step :: int
  global_epoch :: int
  list_train_loss :: "real list"
  list_loss :: "real list"
  test_loss :: real
  ckpt_files :: "string \<rightharpoonup> 'p checkpoint"
  npy_files :: "string \<rightharpoonup> real list"
  log_files :: "string \<rightharpoonup> (string \<times> pyval) list list"
  wav_files :: "string \<rightharpoonup> 'p"
  trace :: "'b event list"

text \<open>The files the process finds when it starts.\<close>

record 'p disk =
  d_ckpt_files :: "string \<rightharpoonup> 'p checkpoint"
  d_npy_files :: "string \<rightharpoonup> real list"
  d_log_files :: "string \<rightharpoonup> (string \<times> pyval) list list"
  d_wav_files :: "string \<rightharpoonup> 'p"

definition emit :: "'b event \<Rightarrow> ('m, 'o, 's, 'b, 'p) pstate \<Rightarrow> ('m, 'o, 's, 'b, 'p) pstate" where
  "emit ev st = st\<lparr>trace := trace st @ [ev]\<rparr>"

definition on_objs ::
  "(('m, 'o, 's) objs \<Rightarrow> ('m, 'o, 's) objs) \<Rightarrow> ('m, 'o, 's, 'b, 'p) pstate \<Rightarrow> ('m, 'o, 's, 'b, 'p) pstate" where
  "on_objs f st =
     (case f (model st, optimizer st, scheduler st) of
        (m, opt, sch) \<Rightarrow> st\<lparr>model := m, optimizer := opt, scheduler := sch\<rparr>)"


subsection \<open>\<^verbatim>\<open>train\<close> (lines 115-166)\<close>

text \<open>
  One pass of the loop over the batches of an epoch (lines 127-162) is \<open>train_step\<close>;
  \<open>train_batches\<close> is the loop, with \<open>epoch_loss\<close> as its accumulator. The running
  averages of lines 148-160 only feed the progress bar.
\<close>

definition train_step ::
  "('m, 'o, 's, 'b, 'p) lib \<Rightarrow> 'b \<Rightarrow> ('m, 'o, 's, 'b, 'p) pstate \<Rightarrow> real \<times> ('m, 'o, 's, 'b, 'p) pstate" where
  "train_step L b st =
     (let st1 = emit Scheduler_step (on_objs (scheduler_step L) st);
          st2 = st1\<lparr>global_step := global_step st1 + 1\<rparr>;
          st3 = emit Zero_grad (on_objs (zero_grad L) st2);
          log_p = fst (forward L (model st3) b);
          logdet = snd (forward L (model st3) b);
          st4 = emit (Forward b log_p logdet) st3;
          loss = - (log_p + logdet);
          st5 = emit (Scaled_backward loss) (on_objs (scale_loss_backward L b) st4);
          st6 = emit (Clip_grad_norm 1) (on_objs (clip_grad_norm L 1) st5);
          st7 = emit Optimizer_step (on_objs (optimizer_step L) st6)
      in (loss, st7))"

fun train_batches ::
  "('m, 'o, 's, 'b, 'p) lib \<Rightarrow> 'b list \<Rightarrow> real \<Rightarrow> ('m, 'o, 's, 'b, 'p) pstate \<Rightarrow> real \<times> ('m, 'o, 's, 'b, 'p) pstate" where
  "train_batches L [] epoch_loss st = (epoch_loss, st)"
| "train_batches L (b # bs) epoch_loss st =
     (case train_step L b st of
        (loss, st') \<Rightarrow> train_batches L bs (epoch_loss + loss) st')"

definition train ::
  "('m, 'o, 's, 'b, 'p) lib \<Rightarrow> int \<Rightarrow> ('m, 'o, 's, 'b, 'p) pstate \<Rightarrow> (exn + real) \<times> ('m, 'o, 's, 'b, 'p) pstate" where
  "train L epoch st =
     (let st1 = emit (Set_epoch epoch) (st\<lparr>sampler_epoch := epoch\<rparr>);
          st2 = emit Model_train (st1\<lparr>model := set_training L True (model st1)\<rparr>);
          bar = train_loader L (sampler_epoch st2)
      in case train_batches L bar 0 st2 of
           (epoch_loss, st3) \<Rightarrow>
             (let st4 = emit Gc_collect st3
              in if length bar = 0 then (Inl ZeroDivisionError, st4)
                 else (Inr (epoch_loss / real (length bar)), st4)))"

subsection \<open>\<^verbatim>\<open>evaluate\<close> (lines 169-193) and \<^verbatim>\<open>synthesize\<close> (lines 196-214)\<close>

fun evaluate_batches ::
  "('m, 'o, 's, 'b, 'p) lib \<Rightarrow> 'b list \<Rightarrow> real \<Rightarrow> ('m, 'o, 's, 'b, 'p) pstate \<Rightarrow> real \<times> ('m, 'o, 's, 'b, 'p) pstate" where
  "evaluate_batches L [] epoch_loss st = (epoch_loss, st)"
| "evaluate_batches L (b # bs) epoch_loss st =
     (let log_p = fst (forward L (model st) b);
          logdet = snd (forward L (model st) b);
          loss = - (log_p + logdet)
      in evaluate_batches L bs (epoch_loss + loss) (emit (Forward_no_grad b) st))"

definition evaluate ::
  "('m, 'o, 's, 'b, 'p) lib \<Rightarrow> ('m, 'o, 's, 'b, 'p) pstate \<Rightarrow> (exn + real) \<times> ('m, 'o, 's, 'b, 'p) pstate" where
  "evaluate L st =
     (let st1 = emit Model_eval (st\<lparr>model := set_training L False (model st)\<rparr>)
      in case evaluate_batches L (test_loader L) 0 st1 of
           (epoch_loss, st2) \<Rightarrow>
             if length (test_loader L) = 0 then (Inl ZeroDivisionError, st2)
             else (Inr (epoch_loss / real (length (test_loader L))), st2))"

text \<open>Only the first batch of the synthesis loader is used (\<^verbatim>\<open>if batch_idx == 0\<close>).\<close>

definition synthesize ::
  "('m, 'o, 's, 'b, 'p) lib \<Rightarrow> args \<Rightarrow> ('m, 'o, 's, 'b, 'p) pstate \<Rightarrow> ('m, 'o, 's, 'b, 'p) pstate" where
  "synthesize L A st =
     (let st1 = emit Model_eval (st\<lparr>model := set_training L False (model st)\<rparr>)
      in case synth_loader L of
           [] \<Rightarrow> st1
         | b # bs \<Rightarrow>
             (let wav = reverse L (model st1) b;
                  name = wav_name A (global_step st1) 0;
                  st2 = emit (Reverse b) st1
              in emit (Write_wav name) (st2\<lparr>wav_files := (wav_files st2)(name \<mapsto> wav)\<rparr>)))"

subsection \<open>\<^verbatim>\<open>save_checkpoint\<close> (lines 217-225) and \<^verbatim>\<open>load_checkpoint\<close> (lines 228-255)\<close>

definition save_checkpoint ::
  "('m, 'o, 's, 'b, 'p) lib \<Rightarrow> args \<Rightarrow> int \<Rightarrow> int \<Rightarrow> ('m, 'o, 's, 'b, 'p) pstate \<Rightarrow> ('m, 'o, 's, 'b, 'p) pstate" where
  "save_checkpoint L A gstep gepoch st =
     (let checkpoint_path = checkpoint_path A gstep;
          optimizer_state = optimizer_state_dict L (optimizer st);
          scheduler_state = scheduler_state_dict L (scheduler st);
          ck = \<lparr> ck_state_dict = state_dict L (model st),
                 ck_optimizer = optimizer_state,
                 ck_scheduler = scheduler_state,
                 ck_global_step = gstep,
                 ck_global_epoch = gepoch \<rparr>
      in emit (Torch_save checkpoint_path)
           (st\<lparr>ckpt_files := (ckpt_files st)(checkpoint_path \<mapsto> ck)\<rparr>))"

text \<open>
  The \<^verbatim>\<open>try\<close> of lines 238-248: \<^verbatim>\<open>RuntimeError\<close> is the one exception caught; any
  other, and any exception of the second attempt, leaves \<^verbatim>\<open>load_checkpoint\<close>.
\<close>

definition load_model_weights ::
  "('m, 'o, 's, 'b, 'p) lib \<Rightarrow> (string \<times> 'p) list \<Rightarrow> ('m, 'o, 's, 'b, 'p) pstate \<Rightarrow> exn option \<times> ('m, 'o, 's, 'b, 'p) pstate" where
  "load_model_weights L sd st =
     (let st1 = emit (Load_model_state False) st;
          st2 = st1\<lparr>model := snd (load_state_dict L (model st1) sd)\<rparr>
      in case fst (load_state_dict L (model st1) sd) of
           None \<Rightarrow> (None, st2)
         | Some e \<Rightarrow>
             if e = RuntimeError then
               (let st3 = emit (Load_model_state True) st2;
                    new_sd = new_state_dict sd []
                in (fst (load_state_dict L (model st3) new_sd),
                    st3\<lparr>model := snd (load_state_dict L (model st3) new_sd)\<rparr>))
             else (Some e, st2))"

definition load_checkpoint ::
  "('m, 'o, 's, 'b, 'p) lib \<Rightarrow> args \<Rightarrow> int \<Rightarrow> ('m, 'o, 's, 'b, 'p) pstate \<Rightarrow> exn option \<times> ('m, 'o, 's, 'b, 'p) pstate" where
  "load_checkpoint L A step st =
     (let checkpoint_path = checkpoint_path A step;
          st1 = emit (Torch_load checkpoint_path) st
      in case ckpt_files st1 checkpoint_path of
           None \<Rightarrow> (Some FileNotFoundError, st1)
         | Some ck \<Rightarrow>
             (case load_model_weights L (ck_state_dict ck) st1 of
                (Some e, st2) \<Rightarrow> (Some e, st2)
              | (None, st2) \<Rightarrow>
                  (let st3 = emit Load_optimizer_state
                         (st2\<lparr>optimizer := optimizer_load_state_dict L (optimizer st2) (ck_optimizer ck)\<rparr>);
                       st4 = emit Load_scheduler_state
                         (st3\<lparr>scheduler := scheduler_load_state_dict L (scheduler st3) (ck_scheduler ck)\<rparr>)
                   in (None, st4\<lparr>global_step := ck_global_step ck,
                                 global_epoch := ck_global_epoch ck\<rparr>))))"


subsection \<open>Module-level setup (lines 60-98)\<close>

definition ensure_dir :: "('m, 'o, 's, 'b, 'p) lib \<Rightarrow> string \<Rightarrow> string list \<Rightarrow> string list" where
  "ensure_dir L p made = (if isdir L made p then made else made @ [p])"

text \<open>Lines 68-82: the directories this process creates, in order.\<close>

definition rank0_dirs :: "('m, 'o, 's, 'b, 'p) lib \<Rightarrow> args \<Rightarrow> string list" where
  "rank0_dirs L A =
     (if local_rank A = 0 then
        (let made1 = ensure_dir L (log_dir A) [];
             made2 = ensure_dir L (save A) made1;
             made3 = ensure_dir L (loss_dir A) made2;
             made4 = ensure_dir L (sample_path A) made3;
             made5 = ensure_dir L (path_join (sample_path A) (model_name A)) made4
         in ensure_dir L (path_join (save A) (model_name A)) made5)
      else [])"

text \<open>
  \<open>startup\<close> returns \<^verbatim>\<open>world_size\<close> and the calls made so far, or the exception of
  line 63 (\<^verbatim>\<open>WORLD_SIZE\<close> unset, or not an integer).
\<close>

definition startup ::
  "('m, 'o, 's, 'b, 'p) lib \<Rightarrow> args \<Rightarrow> (string \<rightharpoonup> string) \<Rightarrow> exn + int \<times> 'b event list" where
  "startup L A environ =
     (case environ ''WORLD_SIZE'' of
        None \<Rightarrow> Inl KeyError
      | Some w \<Rightarrow>
          (case py_int L w of
             Inl e \<Rightarrow> Inl e
           | Inr world_size \<Rightarrow>
               Inr (world_size,
                 [Parse_args, Init_process_group world_size (local_rank A), Set_device (local_rank A)]
                 @ map Makedirs (rank0_dirs L A)
                 @ [New_dataset (data_path A) True, New_dataset (data_path A) False,
                    New_sampler,
                    New_loader Train_loader, New_loader Test_loader, New_loader Synth_loader])))"

subsection \<open>\<^verbatim>\<open>build_model\<close> (lines 101-112) and the main block (lines 258-325)\<close>

definition build_model :: "('m, 'o, 's, 'b, 'p) lib \<Rightarrow> args \<Rightarrow> 'm" where
  "build_model L A =
     (let pretrained = (load_step A > 0)
      in Flowavenet L 1 (cin_channels A) (n_block A) (n_flow A) (n_layer A)
           (hidden_channels A) True pretrained (block_per_split A))"

text \<open>
  Lines 260-280. The sampler's epoch is 0 until \<^verbatim>\<open>set_epoch\<close> is called. The loss
  histories and the best loss are bound by the next block; they start here as empty
  lists and 0.
\<close>

definition main_init ::
  "('m, 'o, 's, 'b, 'p) lib \<Rightarrow> args \<Rightarrow> int \<Rightarrow> 'b event list \<Rightarrow> 'p disk \<Rightarrow> exn + ('m, 'o, 's, 'b, 'p) pstate" where
  "main_init L A world_size tr D =
     (let model0 = build_model L A;
          optimizer0 = Adam L model0 (learning_rate A);
          pretrained = (load_step A > 0);
          tr1 = tr @ [New_model pretrained, New_Adam (learning_rate A)]
      in if world_size = 0 then Inl ZeroDivisionError
         else
           (let scheduler0 = StepLR L optimizer0 (200000 div world_size) (1 / 2);
                tr2 = tr1 @ [New_StepLR (200000 div world_size) (1 / 2)]
            in if \<not> pretrained \<and> train_loader L 0 = [] then Inl StopIteration
               else
                 (let model1 = (if pretrained then model0
                                else init_forward L model0 (hd (train_loader L 0)));
                      tr3 = (if pretrained then tr2
                             else tr2 @ [Init_forward (hd (train_loader L 0))]);
                      model2 = fst (amp_initialize L model1 optimizer0 ''O0'');
                      optimizer2 = snd (amp_initialize L model1 optimizer0 ''O0'');
                      model3 = DistributedDataParallel L model2
                  in Inr \<lparr> model = model3, optimizer = optimizer2, scheduler = scheduler0,
                           sampler_epoch = 0, global_step = 0, global_epoch = 0,
                           list_train_loss = [], list_loss = [], test_loss = 0,
                           ckpt_files = d_ckpt_files D, npy_files = d_npy_files D,
                           log_files = d_log_files D, wav_files = d_wav_files D,
                           trace = tr3 @ [Amp_init ''O0'', Wrap_DDP] \<rparr>)))"

text \<open>
  Lines 282-291. \<^verbatim>\<open>np.load\<close> of a file that is not there raises; \<^verbatim>\<open>np.min\<close> of an
  empty list raises \<^verbatim>\<open>ValueError\<close>.
\<close>

definition resume ::
  "('m, 'o, 's, 'b, 'p) lib \<Rightarrow> args \<Rightarrow> ('m, 'o, 's, 'b, 'p) pstate \<Rightarrow> exn option \<times> ('m, 'o, 's, 'b, 'p) pstate" where
  "resume L A st =
     (if load_step A = 0 then
        (None, st\<lparr>list_train_loss := [], list_loss := [], test_loss := 100\<rparr>)
      else
        (case load_checkpoint L A (load_step A) st of
           (Some e, st1) \<Rightarrow> (Some e, st1)
         | (None, st1) \<Rightarrow>
             (let st2 = emit (Np_load (train_npy_path A)) st1
              in case npy_files st2 (train_npy_path A) of
                   None \<Rightarrow> (Some FileNotFoundError, st2)
                 | Some loaded_train \<Rightarrow>
                     (let st3 = emit (Np_load (eval_npy_path A)) st2
                      in case npy_files st3 (eval_npy_path A) of
                           None \<Rightarrow> (Some FileNotFoundError, st3)
                         | Some loaded \<Rightarrow>
                             (let st4 = st3\<lparr>list_train_loss := py_take (global_epoch st3) loaded_train,
                                            list_loss := py_take (global_epoch st3) loaded\<rparr>
                              in if list_loss st4 = [] then (Some ValueError, st4)
                                 else (None, st4\<lparr>test_loss := Min (set (list_loss st4))\<rparr>))))))"

text \<open>
  One pass of the loop over the epochs (lines 295-325), in two parts and the whole:
  lines 304-309 (\<open>save_if_best\<close>), lines 311-325 (\<open>record_losses\<close>), and the pass
  itself (\<open>epoch_body\<close>).
\<close>

definition save_if_best ::
  "('m, 'o, 's, 'b, 'p) lib \<Rightarrow> args \<Rightarrow> int \<Rightarrow> real \<Rightarrow> ('m, 'o, 's, 'b, 'p) pstate \<Rightarrow> ('m, 'o, 's, 'b, 'p) pstate" where
  "save_if_best L A epoch test_epoch_loss st =
     (if test_loss st > test_epoch_loss then
        synthesize L A
          (save_checkpoint L A (global_step st) epoch (st\<lparr>test_loss := test_epoch_loss\<rparr>))
      else st)"

definition record_losses ::
  "args \<Rightarrow> real \<Rightarrow> real \<Rightarrow> int \<Rightarrow> ('m, 'o, 's, 'b, 'p) pstate \<Rightarrow> ('m, 'o, 's, 'b, 'p) pstate" where
  "record_losses A training_epoch_loss test_epoch_loss epoch st =
     (let st1 = st\<lparr>list_train_loss := list_train_loss st @ [training_epoch_loss],
                    list_loss := list_loss st @ [test_epoch_loss]\<rparr>;
          st2 = emit (Np_save (train_npy_path A))
                  (st1\<lparr>npy_files := (npy_files st1)(train_npy_path A \<mapsto> list_train_loss st1)\<rparr>);
          st3 = emit (Np_save (eval_npy_path A))
                  (st2\<lparr>npy_files := (npy_files st2)(eval_npy_path A \<mapsto> list_loss st2)\<rparr>);
          state = log_state A training_epoch_loss test_epoch_loss epoch;
          old_lines = (case log_files st3 (log_file_path A) of None \<Rightarrow> [] | Some ls \<Rightarrow> ls);
          st4 = emit (Log_append (log_file_path A))
                  (st3\<lparr>log_files := (log_files st3)(log_file_path A \<mapsto> old_lines @ [state])\<rparr>)
      in emit Gc_collect st4)"

definition epoch_body ::
  "('m, 'o, 's, 'b, 'p) lib \<Rightarrow> args \<Rightarrow> int \<Rightarrow> ('m, 'o, 's, 'b, 'p) pstate \<Rightarrow> exn option \<times> ('m, 'o, 's, 'b, 'p) pstate" where
  "epoch_body L A epoch st =
     (case train L epoch st of
        (Inl e, st1) \<Rightarrow> (Some e, st1)
      | (Inr training_epoch_loss, st1) \<Rightarrow>
          if local_rank A > 0 then (None, emit Gc_collect st1)
          else
            (case evaluate L st1 of
               (Inl e, st2) \<Rightarrow> (Some e, st2)
             | (Inr test_epoch_loss, st2) \<Rightarrow>
                 (None, record_losses A training_epoch_loss test_epoch_loss epoch
                          (save_if_best L A epoch test_epoch_loss st2))))"

fun epoch_loop ::
  "('m, 'o, 's, 'b, 'p) lib \<Rightarrow> args \<Rightarrow> int list \<Rightarrow> ('m, 'o, 's, 'b, 'p) pstate \<Rightarrow> exn option \<times> ('m, 'o, 's, 'b, 'p) pstate" where
  "epoch_loop L A [] st = (None, st)"
| "epoch_loop L A (epoch # es) st =
     (case epoch_body L A epoch st of
        (Some e, st') \<Rightarrow> (Some e, st')
      | (None, st') \<Rightarrow> epoch_loop L A es st')"

text \<open>\<^verbatim>\<open>range(global_epoch + 1, args.epochs + 1)\<close> is the list of the epochs to run.\<close>

definition epoch_range :: "args \<Rightarrow> ('m, 'o, 's, 'b, 'p) pstate \<Rightarrow> int list" where
  "epoch_range A st = [global_epoch st + 1 .. epochs A]"

text \<open>
  The whole script. An exception before the objects exist gives \<open>Inl\<close>; afterwards the
  result is the exception that ended the run, if any, with the state it left.
\<close>

definition main ::
  "('m, 'o, 's, 'b, 'p) lib \<Rightarrow> args \<Rightarrow> (string \<rightharpoonup> string) \<Rightarrow> 'p disk \<Rightarrow> exn + exn option \<times> ('m, 'o, 's, 'b, 'p) pstate" where
  "main L A environ D =
     (case startup L A environ of
        Inl e \<Rightarrow> Inl e
      | Inr (world_size, tr) \<Rightarrow>
          (case main_init L A world_size tr D of
             Inl e \<Rightarrow> Inl e
           | Inr st0 \<Rightarrow>
               Inr (case resume L A st0 of
                      (Some e, st1) \<Rightarrow> (Some e, st1)
                    | (None, st1) \<Rightarrow> epoch_loop L A (epoch_range A st1) st1)))"


subsection \<open>Reading the trace\<close>

text \<open>The calls made between two states of a run.\<close>

definition since :: "('m, 'o, 's, 'b, 'p) pstate \<Rightarrow> ('m, 'o, 's, 'b, 'p) pstate \<Rightarrow> 'b event list" where
  "since st st' = drop (length (trace st)) (trace st')"

text \<open>
  The three objects of a state, and the pair of means that the forward pass of a
  training step returns: the model is the one left by the scheduler step and
  \<^verbatim>\<open>zero_grad\<close> before it.
\<close>

definition objs_of :: "('m, 'o, 's, 'b, 'p) pstate \<Rightarrow> ('m, 'o, 's) objs" where
  "objs_of st = (model st, optimizer st, scheduler st)"

definition step_forward :: "('m, 'o, 's, 'b, 'p) lib \<Rightarrow> 'b \<Rightarrow> ('m, 'o, 's, 'b, 'p) pstate \<Rightarrow> real \<times> real" where
  "step_forward L b st = forward L (fst (zero_grad L (scheduler_step L (objs_of st)))) b"

text \<open>
  The calls of a pass over the batches \<open>bs\<close>: for each batch the scheduler step,
  \<^verbatim>\<open>zero_grad\<close>, the forward pass on that batch, the backward pass on the scaled loss
  \<open>- (log_p + logdet)\<close>, clipping to 1 and the optimizer step.
\<close>

fun train_steps :: "'b list \<Rightarrow> 'b event list \<Rightarrow> bool" where
  "train_steps [] tr = (tr = [])"
| "train_steps (b # bs) (e1 # e2 # e3 # e4 # e5 # e6 # tr) =
     (e1 = Scheduler_step \<and> e2 = Zero_grad
      \<and> (case e3 of
            Forward b' log_p logdet \<Rightarrow> b' = b \<and> e4 = Scaled_backward (- (log_p + logdet))
          | _ \<Rightarrow> False)
      \<and> e5 = Clip_grad_norm 1 \<and> e6 = Optimizer_step \<and> train_steps bs tr)"
| "train_steps (b # bs) tr = False"

text \<open>The calls of a training step that the order of lines 134-146 is about.\<close>

fun is_step_event :: "'b event \<Rightarrow> bool" where
  "is_step_event Zero_grad = True"
| "is_step_event (Forward b log_p logdet) = True"
| "is_step_event (Scaled_backward l) = True"
| "is_step_event (Clip_grad_norm c) = True"
| "is_step_event Optimizer_step = True"
| "is_step_event _ = False"

text \<open>
  A list of such calls is made of groups: \<^verbatim>\<open>zero_grad\<close>, the forward pass, the backward
  pass on the scaled loss \<open>- (log_p + logdet)\<close> of that forward pass, clipping to 1, the
  optimizer step.
\<close>

fun step_groups :: "'b event list \<Rightarrow> bool" where
  "step_groups [] = True"
| "step_groups (e1 # e2 # e3 # e4 # e5 # tr) =
     (e1 = Zero_grad
      \<and> (case e2 of Forward b log_p logdet \<Rightarrow> e3 = Scaled_backward (- (log_p + logdet)) | _ \<Rightarrow> False)
      \<and> e4 = Clip_grad_norm 1 \<and> e5 = Optimizer_step \<and> step_groups tr)"
| "step_groups _ = False"

text \<open>Scheduler and optimizer steps alternate, the scheduler's first.\<close>

fun is_sched_or_opt :: "'b event \<Rightarrow> bool" where
  "is_sched_or_opt Scheduler_step = True"
| "is_sched_or_opt Optimizer_step = True"
| "is_sched_or_opt _ = False"

fun sched_then_opt :: "'b event list \<Rightarrow> bool" where
  "sched_then_opt [] = True"
| "sched_then_opt (e1 # e2 # tr) = (e1 = Scheduler_step \<and> e2 = Optimizer_step \<and> sched_then_opt tr)"
| "sched_then_opt _ = False"

text \<open>The batches of the forward passes of training steps, and the epochs set on the sampler.\<close>

fun forward_batches :: "'b event list \<Rightarrow> 'b list" where
  "forward_batches [] = []"
| "forward_batches (Forward b log_p logdet # tr) = b # forward_batches tr"
| "forward_batches (e # tr) = forward_batches tr"

fun set_epochs :: "'b event list \<Rightarrow> int list" where
  "set_epochs [] = []"
| "set_epochs (Set_epoch e # tr) = e # set_epochs tr"
| "set_epochs (ev # tr) = set_epochs tr"

fun opt_levels :: "'b event list \<Rightarrow> string list" where
  "opt_levels [] = []"
| "opt_levels (Amp_init lvl # tr) = lvl # opt_levels tr"
| "opt_levels (ev # tr) = opt_levels tr"


text \<open>
  What a process does beyond training: evaluation, synthesis, and writing checkpoints,
  samples, loss histories, the log or directories.
\<close>

fun beyond_training :: "'b event \<Rightarrow> bool" where
  "beyond_training Model_eval = True"
| "beyond_training (Forward_no_grad b) = True"
| "beyond_training (Torch_save p) = True"
| "beyond_training (Reverse b) = True"
| "beyond_training (Write_wav p) = True"
| "beyond_training (Np_save p) = True"
| "beyond_training (Log_append p) = True"
| "beyond_training (Makedirs p) = True"
| "beyond_training _ = False"

text \<open>The stages of the script, by the calls that belong to them.\<close>

fun phase :: "'b event \<Rightarrow> nat" where
  "phase Parse_args = 0"
| "phase (Init_process_group w r) = 1"
| "phase (Set_device r) = 1"
| "phase (Makedirs p) = 2"
| "phase (New_dataset p t) = 3"
| "phase New_sampler = 3"
| "phase (New_loader k) = 3"
| "phase (New_model p) = 4"
| "phase (New_Adam lr) = 4"
| "phase (New_StepLR k g) = 4"
| "phase (Init_forward b) = 4"
| "phase (Amp_init lvl) = 4"
| "phase Wrap_DDP = 4"
| "phase (Torch_load p) = 5"
| "phase (Load_model_state c) = 5"
| "phase Load_optimizer_state = 5"
| "phase Load_scheduler_state = 5"
| "phase (Np_load p) = 5"
| "phase _ = 6"

text \<open>
  The calls of one pass of the epoch loop after \<^verbatim>\<open>train\<close> has returned, from the state
  \<open>st1\<close> that \<^verbatim>\<open>train\<close> left.
\<close>

definition after_train ::
  "('m, 'o, 's, 'b, 'p) lib \<Rightarrow> args \<Rightarrow> int \<Rightarrow> ('m, 'o, 's, 'b, 'p) pstate \<Rightarrow> 'b event list" where
  "after_train L A epoch st1 =
     (if train_loader L epoch = [] then []
      else if local_rank A > 0 then [Gc_collect]
      else if test_loader L = [] then [Model_eval]
      else Model_eval # map Forward_no_grad (test_loader L)
           @ (if projr (fst (evaluate L st1)) < test_loss st1 then
                Torch_save (checkpoint_path A (global_step st1)) # Model_eval #
                  (case synth_loader L of [] \<Rightarrow> []
                   | b # bs \<Rightarrow> [Reverse b, Write_wav (wav_name A (global_step st1) 0)])
              else [])
           @ [Np_save (train_npy_path A), Np_save (eval_npy_path A),
              Log_append (log_file_path A), Gc_collect])"

text \<open>Calls that belong to no training step and set no epoch.\<close>

definition quiet :: "'b event list \<Rightarrow> bool" where
  "quiet tr = (filter is_step_event tr = [] \<and> filter is_sched_or_opt tr = []
               \<and> forward_batches tr = [] \<and> set_epochs tr = [] \<and> opt_levels tr = []
               \<and> filter (\<lambda>e. phase e \<noteq> 6) tr = [])"

text \<open>
  The calls of the script before the block of lines 282-291, for a world size \<open>ws\<close>:
  lines 60-98 and 260-277.
\<close>

definition setup_trace :: "('m, 'o, 's, 'b, 'p) lib \<Rightarrow> args \<Rightarrow> int \<Rightarrow> 'b event list" where
  "setup_trace L A ws =
     [Parse_args, Init_process_group ws (local_rank A), Set_device (local_rank A)]
     @ map Makedirs (rank0_dirs L A)
     @ [New_dataset (data_path A) True, New_dataset (data_path A) False, New_sampler,
        New_loader Train_loader, New_loader Test_loader, New_loader Synth_loader]
     @ [New_model (load_step A > 0), New_Adam (learning_rate A),
        New_StepLR (200000 div ws) (1 / 2)]
     @ (if load_step A > 0 then [] else [Init_forward (hd (train_loader L 0))])
     @ [Amp_init ''O0'', Wrap_DDP]"

subsection \<open>What the libraries document\<close>









subsection \<open>A small library to run the script on\<close>

text \<open>
  A model is its training flag and its weights by name; an optimizer step adds 1 to
  every weight; the log-likelihood of a batch is the sum of the weights;
  \<^verbatim>\<open>DistributedDataParallel\<close> prefixes the names with \<^verbatim>\<open>module.\<close>; \<^verbatim>\<open>load_state_dict\<close> is
  strict about the names.
\<close>

definition toy_lib :: "(bool \<times> (string \<times> int) list, int, int, int, int) lib" where
  "toy_lib = \<lparr>
     py_int = (\<lambda>w. if w = ''1'' then Inr 1 else if w = ''2'' then Inr 2 else Inl ValueError),
     isdir = (\<lambda>made p. p \<in> set made),
     Flowavenet = (\<lambda>in_channel cin n_block n_flow n_layer hidden affine pretrained bps.
                     (False, [(''front.weight'', 0)])),
     Adam = (\<lambda>m lr. 0),
     StepLR = (\<lambda>opt step_size gamma. 0),
     train_loader = (\<lambda>e. [1, 2]),
     test_loader = [3],
     synth_loader = [4],
     forward = (\<lambda>m b. (real_of_int (sum_list (map snd (snd m))), 0)),
     init_forward = (\<lambda>m b. m),
     amp_initialize = (\<lambda>m opt lvl. (m, opt)),
     DistributedDataParallel = (\<lambda>m. (fst m, map (\<lambda>kv. (''module.'' @ fst kv, snd kv)) (snd m))),
     set_training = (\<lambda>t m. (t, snd m)),
     scheduler_step = (\<lambda>x. (fst x, fst (snd x), snd (snd x) + 1)),
     zero_grad = (\<lambda>x. x),
     scale_loss_backward = (\<lambda>b x. x),
     clip_grad_norm = (\<lambda>c x. x),
     optimizer_step = (\<lambda>x. ((fst (fst x), map (\<lambda>kv. (fst kv, snd kv + 1)) (snd (fst x))),
                              fst (snd x) + 1, snd (snd x))),
     state_dict = snd,
     load_state_dict = (\<lambda>m sd. if map fst sd = map fst (snd m) then (None, (fst m, sd))
                                else (Some RuntimeError, m)),
     optimizer_state_dict = (\<lambda>opt. opt),
     optimizer_load_state_dict = (\<lambda>opt p. p),
     scheduler_state_dict = (\<lambda>sch. sch),
     scheduler_load_state_dict = (\<lambda>sch p. p),
     reverse = (\<lambda>m b. b) \<rparr>"

definition toy_environ :: "string \<rightharpoonup> string" where
  "toy_environ = [''WORLD_SIZE'' \<mapsto> ''2'']"

definition empty_disk :: "int disk" where
  "empty_disk = \<lparr> d_ckpt_files = Map.empty, d_npy_files = Map.empty,
                   d_log_files = Map.empty, d_wav_files = Map.empty \<rparr>"

text \<open>A state of a process on the small library, with a wrapped model.\<close>

definition toy_state :: "(bool \<times> (string \<times> int) list, int, int, int, int) pstate" where
  "toy_state = \<lparr> model = (False, [(''module.front.weight'', 5)]), optimizer = 7, scheduler = 7,
                  sampler_epoch = 0, global_step = 7, global_epoch = 3,
                  list_train_loss = [], list_loss = [], test_loss = 100,
                  ckpt_files = Map.empty, npy_files = Map.empty,
                  log_files = Map.empty, wav_files = Map.empty, trace = [] \<rparr>"


text \<open>
  A checkpoint written from a wrapped model, and a process whose model is not wrapped
  that finds it on disk.
\<close>

definition toy_ckpt :: "int checkpoint" where
  "toy_ckpt = \<lparr> ck_state_dict = [(''module.front.weight'', 9)], ck_optimizer = 11,
                 ck_scheduler = 12, ck_global_step = 42, ck_global_epoch = 6 \<rparr>"

definition toy_plain_state :: "(bool \<times> (string \<times> int) list, int, int, int, int) pstate" where
  "toy_plain_state = toy_state\<lparr>model := (False, [(''front.weight'', 5)]),
                                ckpt_files := [checkpoint_path default_args 42 \<mapsto> toy_ckpt]\<rparr>"

text \<open>A run of one epoch of the first process on the small library, and one of the second.\<close>

definition toy_args :: args where
  "toy_args = default_args\<lparr>epochs := 1\<rparr>"

definition toy_run :: "exn option \<times> (bool \<times> (string \<times> int) list, int, int, int, int) pstate" where
  "toy_run = projr (main toy_lib toy_args toy_environ empty_disk)"

definition toy_run_rank1 :: "exn option \<times> (bool \<times> (string \<times> int) list, int, int, int, int) pstate" where
  "toy_run_rank1 = projr (main toy_lib (toy_args\<lparr>local_rank := 1\<rparr>) toy_environ empty_disk)"

section \<open>Properties\<close>

subsection \<open>The calls and effects of each function\<close>

lemma emit_fields [simp]:
  "trace (emit ev st) = trace st @ [ev]"
  "model (emit ev st) = model st"
  "optimizer (emit ev st) = optimizer st"
  "scheduler (emit ev st) = scheduler st"
  "sampler_epoch (emit ev st) = sampler_epoch st"
  "global_step (emit ev st) = global_step st"
  "global_epoch (emit ev st) = global_epoch st"
  "list_train_loss (emit ev st) = list_train_loss st"
  "list_loss (emit ev st) = list_loss st"
  "test_loss (emit ev st) = test_loss st"
  "ckpt_files (emit ev st) = ckpt_files st"
  "npy_files (emit ev st) = npy_files st"
  "log_files (emit ev st) = log_files st"
  "wav_files (emit ev st) = wav_files st"
  by (simp_all add: emit_def)

lemma on_objs_fields [simp]:
  "trace (on_objs f st) = trace st"
  "sampler_epoch (on_objs f st) = sampler_epoch st"
  "global_step (on_objs f st) = global_step st"
  "global_epoch (on_objs f st) = global_epoch st"
  "list_train_loss (on_objs f st) = list_train_loss st"
  "list_loss (on_objs f st) = list_loss st"
  "test_loss (on_objs f st) = test_loss st"
  "ckpt_files (on_objs f st) = ckpt_files st"
  "npy_files (on_objs f st) = npy_files st"
  "log_files (on_objs f st) = log_files st"
  "wav_files (on_objs f st) = wav_files st"
  by (simp_all add: on_objs_def split: prod.split)

lemma objs_of_simps [simp]:
  "objs_of (on_objs f st) = f (objs_of st)"
  "objs_of (emit ev st) = objs_of st"
  "objs_of (st\<lparr>global_step := g\<rparr>) = objs_of st"
  by (simp_all add: objs_of_def on_objs_def split: prod.split)

lemma model_objs_of: "model st = fst (objs_of st)"
  by (simp add: objs_of_def)

lemma train_step_trace:
  "trace (snd (train_step L b st)) = trace st @
     [Scheduler_step, Zero_grad,
      Forward b (fst (step_forward L b st)) (snd (step_forward L b st)),
      Scaled_backward (- (fst (step_forward L b st) + snd (step_forward L b st))),
      Clip_grad_norm 1, Optimizer_step]"
  by (simp add: train_step_def Let_def step_forward_def model_objs_of)


lemma train_step_fields:
  "global_step (snd (train_step L b st)) = global_step st + 1"
  "global_epoch (snd (train_step L b st)) = global_epoch st"
  "sampler_epoch (snd (train_step L b st)) = sampler_epoch st"
  "list_train_loss (snd (train_step L b st)) = list_train_loss st"
  "list_loss (snd (train_step L b st)) = list_loss st"
  "test_loss (snd (train_step L b st)) = test_loss st"
  "ckpt_files (snd (train_step L b st)) = ckpt_files st"
  "npy_files (snd (train_step L b st)) = npy_files st"
  "log_files (snd (train_step L b st)) = log_files st"
  "wav_files (snd (train_step L b st)) = wav_files st"
  by (simp_all add: train_step_def Let_def)


lemma train_steps_append:
  "train_steps bs tr \<Longrightarrow> train_steps bs' tr' \<Longrightarrow> train_steps (bs @ bs') (tr @ tr')"
  by (induction bs tr rule: train_steps.induct) auto

lemma train_batches_Cons:
  "train_batches L (b # bs) acc st =
     train_batches L bs (acc + fst (train_step L b st)) (snd (train_step L b st))"
  by (simp split: prod.split)

lemma train_batches_trace:
  "\<exists>tr. trace (snd (train_batches L bs acc st)) = trace st @ tr \<and> train_steps bs tr"
proof (induction bs arbitrary: acc st)
  case Nil
  show ?case by simp
next
  case (Cons b bs)
  let ?st1 = "snd (train_step L b st)"
  let ?one = "[Scheduler_step, Zero_grad,
      Forward b (fst (step_forward L b st)) (snd (step_forward L b st)),
      Scaled_backward (- (fst (step_forward L b st) + snd (step_forward L b st))),
      Clip_grad_norm 1, Optimizer_step]"
  from Cons.IH [of "acc + fst (train_step L b st)" ?st1] obtain tr where
    tr: "trace (snd (train_batches L bs (acc + fst (train_step L b st)) ?st1)) = trace ?st1 @ tr"
        "train_steps bs tr" by blast
  have "trace (snd (train_batches L (b # bs) acc st)) = trace st @ (?one @ tr)"
    by (simp only: train_batches_Cons tr train_step_trace append_assoc)
  moreover have "train_steps (b # bs) (?one @ tr)"
    using tr(2) by simp
  ultimately show ?case by blast
qed

lemma train_batches_fields:
  "global_step (snd (train_batches L bs acc st)) = global_step st + int (length bs)"
  "global_epoch (snd (train_batches L bs acc st)) = global_epoch st"
  "sampler_epoch (snd (train_batches L bs acc st)) = sampler_epoch st"
  "list_train_loss (snd (train_batches L bs acc st)) = list_train_loss st"
  "list_loss (snd (train_batches L bs acc st)) = list_loss st"
  "test_loss (snd (train_batches L bs acc st)) = test_loss st"
  "ckpt_files (snd (train_batches L bs acc st)) = ckpt_files st"
  "npy_files (snd (train_batches L bs acc st)) = npy_files st"
  "log_files (snd (train_batches L bs acc st)) = log_files st"
  "wav_files (snd (train_batches L bs acc st)) = wav_files st"
  by (induction bs arbitrary: acc st)
     (simp_all add: train_batches_Cons train_step_fields del: train_batches.simps(2))

lemma train_unfold:
  "train L epoch st =
     (if train_loader L epoch = [] then Inl ZeroDivisionError
      else Inr (fst (train_batches L (train_loader L epoch) 0
                  (emit Model_train ((emit (Set_epoch epoch) (st\<lparr>sampler_epoch := epoch\<rparr>))
                     \<lparr>model := set_training L True (model st)\<rparr>)))
                / real (length (train_loader L epoch))),
      emit Gc_collect (snd (train_batches L (train_loader L epoch) 0
                  (emit Model_train ((emit (Set_epoch epoch) (st\<lparr>sampler_epoch := epoch\<rparr>))
                     \<lparr>model := set_training L True (model st)\<rparr>)))))"
  by (simp add: train_def Let_def emit_def split: prod.split)

lemma train_trace:
  "\<exists>tr. trace (snd (train L epoch st)) = trace st @ Set_epoch epoch # Model_train # tr @ [Gc_collect]
        \<and> train_steps (train_loader L epoch) tr"
proof -
  let ?st2 = "emit Model_train ((emit (Set_epoch epoch) (st\<lparr>sampler_epoch := epoch\<rparr>))
                     \<lparr>model := set_training L True (model st)\<rparr>)"
  obtain tr where tr: "trace (snd (train_batches L (train_loader L epoch) 0 ?st2)) = trace ?st2 @ tr"
      "train_steps (train_loader L epoch) tr"
    using train_batches_trace [of L "train_loader L epoch" 0 ?st2] by blast
  have "trace ?st2 = trace st @ [Set_epoch epoch, Model_train]"
    by (simp add: emit_def)
  with tr show ?thesis by (simp add: train_unfold)
qed

lemma train_fields:
  "global_step (snd (train L epoch st)) = global_step st + int (length (train_loader L epoch))"
  "global_epoch (snd (train L epoch st)) = global_epoch st"
  "sampler_epoch (snd (train L epoch st)) = epoch"
  "list_train_loss (snd (train L epoch st)) = list_train_loss st"
  "list_loss (snd (train L epoch st)) = list_loss st"
  "test_loss (snd (train L epoch st)) = test_loss st"
  "ckpt_files (snd (train L epoch st)) = ckpt_files st"
  "npy_files (snd (train L epoch st)) = npy_files st"
  "log_files (snd (train L epoch st)) = log_files st"
  "wav_files (snd (train L epoch st)) = wav_files st"
  by (simp_all add: train_unfold train_batches_fields)

lemma train_result:
  "isl (fst (train L epoch st)) = (train_loader L epoch = [])"
  by (simp add: train_unfold)

lemma evaluate_batches_trace:
  "trace (snd (evaluate_batches L bs acc st)) = trace st @ map Forward_no_grad bs"
  by (induction bs arbitrary: acc st) (simp_all add: Let_def)

lemma evaluate_batches_fields:
  "model (snd (evaluate_batches L bs acc st)) = model st"
  "optimizer (snd (evaluate_batches L bs acc st)) = optimizer st"
  "scheduler (snd (evaluate_batches L bs acc st)) = scheduler st"
  "global_step (snd (evaluate_batches L bs acc st)) = global_step st"
  "global_epoch (snd (evaluate_batches L bs acc st)) = global_epoch st"
  "sampler_epoch (snd (evaluate_batches L bs acc st)) = sampler_epoch st"
  "list_train_loss (snd (evaluate_batches L bs acc st)) = list_train_loss st"
  "list_loss (snd (evaluate_batches L bs acc st)) = list_loss st"
  "test_loss (snd (evaluate_batches L bs acc st)) = test_loss st"
  "ckpt_files (snd (evaluate_batches L bs acc st)) = ckpt_files st"
  "npy_files (snd (evaluate_batches L bs acc st)) = npy_files st"
  "log_files (snd (evaluate_batches L bs acc st)) = log_files st"
  "wav_files (snd (evaluate_batches L bs acc st)) = wav_files st"
  by (induction bs arbitrary: acc st) (simp_all add: Let_def)

lemma evaluate_unfold:
  "evaluate L st =
     (if test_loader L = [] then Inl ZeroDivisionError
      else Inr (fst (evaluate_batches L (test_loader L) 0
                  (emit Model_eval (st\<lparr>model := set_training L False (model st)\<rparr>)))
                / real (length (test_loader L))),
      snd (evaluate_batches L (test_loader L) 0
             (emit Model_eval (st\<lparr>model := set_training L False (model st)\<rparr>))))"
  by (simp add: evaluate_def Let_def split: prod.split)

lemma evaluate_trace:
  "trace (snd (evaluate L st)) = trace st @ Model_eval # map Forward_no_grad (test_loader L)"
  by (simp add: evaluate_unfold evaluate_batches_trace)

lemma evaluate_fields:
  "optimizer (snd (evaluate L st)) = optimizer st"
  "scheduler (snd (evaluate L st)) = scheduler st"
  "global_step (snd (evaluate L st)) = global_step st"
  "global_epoch (snd (evaluate L st)) = global_epoch st"
  "sampler_epoch (snd (evaluate L st)) = sampler_epoch st"
  "list_train_loss (snd (evaluate L st)) = list_train_loss st"
  "list_loss (snd (evaluate L st)) = list_loss st"
  "test_loss (snd (evaluate L st)) = test_loss st"
  "ckpt_files (snd (evaluate L st)) = ckpt_files st"
  "npy_files (snd (evaluate L st)) = npy_files st"
  "log_files (snd (evaluate L st)) = log_files st"
  "wav_files (snd (evaluate L st)) = wav_files st"
  by (simp_all add: evaluate_unfold evaluate_batches_fields)

lemma evaluate_result:
  "isl (fst (evaluate L st)) = (test_loader L = [])"
  by (simp add: evaluate_unfold)

lemma synthesize_trace:
  "trace (synthesize L A st) = trace st @ Model_eval #
     (case synth_loader L of [] \<Rightarrow> []
      | b # bs \<Rightarrow> [Reverse b, Write_wav (wav_name A (global_step st) 0)])"
  by (simp add: synthesize_def Let_def emit_def split: list.split)

lemma synthesize_fields:
  "optimizer (synthesize L A st) = optimizer st"
  "scheduler (synthesize L A st) = scheduler st"
  "global_step (synthesize L A st) = global_step st"
  "global_epoch (synthesize L A st) = global_epoch st"
  "sampler_epoch (synthesize L A st) = sampler_epoch st"
  "list_train_loss (synthesize L A st) = list_train_loss st"
  "list_loss (synthesize L A st) = list_loss st"
  "test_loss (synthesize L A st) = test_loss st"
  "ckpt_files (synthesize L A st) = ckpt_files st"
  "npy_files (synthesize L A st) = npy_files st"
  "log_files (synthesize L A st) = log_files st"
  by (simp_all add: synthesize_def Let_def emit_def split: list.split)

lemma save_checkpoint_trace:
  "trace (save_checkpoint L A gstep gepoch st) = trace st @ [Torch_save (checkpoint_path A gstep)]"
  by (simp add: save_checkpoint_def Let_def emit_def)

lemma save_checkpoint_fields:
  "model (save_checkpoint L A gstep gepoch st) = model st"
  "optimizer (save_checkpoint L A gstep gepoch st) = optimizer st"
  "scheduler (save_checkpoint L A gstep gepoch st) = scheduler st"
  "global_step (save_checkpoint L A gstep gepoch st) = global_step st"
  "global_epoch (save_checkpoint L A gstep gepoch st) = global_epoch st"
  "sampler_epoch (save_checkpoint L A gstep gepoch st) = sampler_epoch st"
  "list_train_loss (save_checkpoint L A gstep gepoch st) = list_train_loss st"
  "list_loss (save_checkpoint L A gstep gepoch st) = list_loss st"
  "test_loss (save_checkpoint L A gstep gepoch st) = test_loss st"
  "npy_files (save_checkpoint L A gstep gepoch st) = npy_files st"
  "log_files (save_checkpoint L A gstep gepoch st) = log_files st"
  "wav_files (save_checkpoint L A gstep gepoch st) = wav_files st"
  by (simp_all add: save_checkpoint_def Let_def emit_def)

lemma save_checkpoint_file:
  "ckpt_files (save_checkpoint L A gstep gepoch st) =
     (ckpt_files st)(checkpoint_path A gstep \<mapsto>
        \<lparr> ck_state_dict = state_dict L (model st),
          ck_optimizer = optimizer_state_dict L (optimizer st),
          ck_scheduler = scheduler_state_dict L (scheduler st),
          ck_global_step = gstep, ck_global_epoch = gepoch \<rparr>)"
  by (simp add: save_checkpoint_def Let_def emit_def)

lemma since_append: "trace st' = trace st @ tr \<Longrightarrow> since st st' = tr"
  by (simp add: since_def)

lemma new_state_dict_keys:
  "fst ` set (new_state_dict sd acc) = fst ` set acc \<union> strip_module ` fst ` set sd"
  by (induction sd acc rule: new_state_dict.induct) (auto simp: AList.dom_update)

lemma update_fresh: "k \<notin> fst ` set al \<Longrightarrow> AList.update k v al = al @ [(k, v)]"
  by (induction al) auto

lemma new_state_dict_distinct:
  "distinct (map (strip_module \<circ> fst) sd) \<Longrightarrow>
   strip_module ` fst ` set sd \<inter> fst ` set acc = {} \<Longrightarrow>
   new_state_dict sd acc = acc @ map (\<lambda>(k, v). (strip_module k, v)) sd"
proof (induction sd acc rule: new_state_dict.induct)
  case (1 acc)
  show ?case by simp
next
  case (2 k v kvs acc)
  have fresh: "strip_module k \<notin> fst ` set acc" using 2(3) by auto
  have upd: "AList.update (strip_module k) v acc = acc @ [(strip_module k, v)]"
    using fresh by (rule update_fresh)
  have d: "distinct (map (strip_module \<circ> fst) kvs)" using 2(2) by (simp add: comp_def)
  have "strip_module k \<notin> strip_module ` fst ` set kvs" using 2(2) by (auto simp: image_iff)
  then have disj: "strip_module ` fst ` set kvs \<inter> fst ` set (AList.update (strip_module k) v acc) = {}"
    using 2(3) by (auto simp: upd)
  show ?case using 2(1) [OF d disj] by (simp add: upd)
qed

lemma load_model_weights_first:
  "fst (load_state_dict L (model st) sd) = None \<Longrightarrow>
   load_model_weights L sd st =
     (None, (emit (Load_model_state False) st)\<lparr>model := snd (load_state_dict L (model st) sd)\<rparr>)"
  by (simp add: load_model_weights_def Let_def)

lemma load_model_weights_second:
  "fst (load_state_dict L (model st) sd) = Some RuntimeError \<Longrightarrow>
   load_model_weights L sd st =
     (fst (load_state_dict L (snd (load_state_dict L (model st) sd)) (new_state_dict sd [])),
      (emit (Load_model_state True) (emit (Load_model_state False) st))
        \<lparr>model := snd (load_state_dict L (snd (load_state_dict L (model st) sd)) (new_state_dict sd []))\<rparr>)"
  by (simp add: load_model_weights_def Let_def emit_def)

lemma load_model_weights_other:
  "fst (load_state_dict L (model st) sd) = Some e \<Longrightarrow> e \<noteq> RuntimeError \<Longrightarrow>
   load_model_weights L sd st =
     (Some e, (emit (Load_model_state False) st)\<lparr>model := snd (load_state_dict L (model st) sd)\<rparr>)"
  by (simp add: load_model_weights_def Let_def)

lemma load_model_weights_fields:
  "optimizer (snd (load_model_weights L sd st)) = optimizer st"
  "scheduler (snd (load_model_weights L sd st)) = scheduler st"
  "global_step (snd (load_model_weights L sd st)) = global_step st"
  "global_epoch (snd (load_model_weights L sd st)) = global_epoch st"
  "sampler_epoch (snd (load_model_weights L sd st)) = sampler_epoch st"
  "list_train_loss (snd (load_model_weights L sd st)) = list_train_loss st"
  "list_loss (snd (load_model_weights L sd st)) = list_loss st"
  "test_loss (snd (load_model_weights L sd st)) = test_loss st"
  "ckpt_files (snd (load_model_weights L sd st)) = ckpt_files st"
  "npy_files (snd (load_model_weights L sd st)) = npy_files st"
  "log_files (snd (load_model_weights L sd st)) = log_files st"
  "wav_files (snd (load_model_weights L sd st)) = wav_files st"
  by (simp_all add: load_model_weights_def Let_def split: option.split)

lemma load_checkpoint_unfold:
  assumes "ckpt_files st (checkpoint_path A step) = Some ck"
  shows "load_checkpoint L A step st =
     (case fst (load_model_weights L (ck_state_dict ck) (emit (Torch_load (checkpoint_path A step)) st)) of
        Some e \<Rightarrow> (Some e, snd (load_model_weights L (ck_state_dict ck) (emit (Torch_load (checkpoint_path A step)) st)))
      | None \<Rightarrow>
          (None, (emit Load_scheduler_state (emit Load_optimizer_state
             (snd (load_model_weights L (ck_state_dict ck) (emit (Torch_load (checkpoint_path A step)) st)))))
             \<lparr>optimizer := optimizer_load_state_dict L (optimizer st) (ck_optimizer ck),
               scheduler := scheduler_load_state_dict L (scheduler st) (ck_scheduler ck),
               global_step := ck_global_step ck, global_epoch := ck_global_epoch ck\<rparr>))"
proof -
  let ?st1 = "emit (Torch_load (checkpoint_path A step)) st"
  obtain r st2 where w: "load_model_weights L (ck_state_dict ck) ?st1 = (r, st2)"
    by (cases "load_model_weights L (ck_state_dict ck) ?st1")
  have o: "optimizer st2 = optimizer st" and s: "scheduler st2 = scheduler st"
    using load_model_weights_fields(1,2) [of L "ck_state_dict ck" ?st1] w by simp_all
  have f: "ckpt_files ?st1 (checkpoint_path A step) = Some ck" using assms by simp
  show ?thesis
    using f w o s by (simp add: load_checkpoint_def Let_def emit_def split: option.split)
qed

lemma load_checkpoint_missing:
  "ckpt_files st (checkpoint_path A step) = None \<Longrightarrow>
   load_checkpoint L A step st = (Some FileNotFoundError, emit (Torch_load (checkpoint_path A step)) st)"
  by (simp add: load_checkpoint_def Let_def)

subsection \<open>Loading a checkpoint\<close>

text \<open>
  C9. \<^verbatim>\<open>load_checkpoint\<close> first calls \<^verbatim>\<open>model.load_state_dict\<close> on the stored dictionary;
  only if that raises \<^verbatim>\<open>RuntimeError\<close> it calls it again, on a dictionary whose keys are
  the stored keys without their first 7 characters; whenever \<^verbatim>\<open>load_checkpoint\<close> then
  returns, by either path, the optimizer state, the scheduler state, \<open>global_step\<close> and
  \<open>global_epoch\<close> are the checkpoint's.
\<close>

theorem load_checkpoint_fallback:
  assumes "ckpt_files st (checkpoint_path A step) = Some ck"
  shows "let sd = ck_state_dict ck;
             first = load_state_dict L (model st) sd;
             second = load_state_dict L (snd first) (new_state_dict sd []);
             res = load_checkpoint L A step st;
             st' = snd res
         in (fst first = None \<longrightarrow>
               fst res = None \<and> model st' = snd first
               \<and> since st st' = [Torch_load (checkpoint_path A step), Load_model_state False,
                                  Load_optimizer_state, Load_scheduler_state])
          \<and> (fst first = Some RuntimeError \<longrightarrow>
               fst res = fst second \<and> model st' = snd second
               \<and> (fst second = None \<longrightarrow>
                    since st st' = [Torch_load (checkpoint_path A step), Load_model_state False,
                                     Load_model_state True, Load_optimizer_state, Load_scheduler_state]))
          \<and> (\<forall>e. fst first = Some e \<and> e \<noteq> RuntimeError \<longrightarrow>
               fst res = Some e \<and> Load_model_state True \<notin> set (since st st'))
          \<and> (fst res = None \<longrightarrow>
               optimizer st' = optimizer_load_state_dict L (optimizer st) (ck_optimizer ck)
               \<and> scheduler st' = scheduler_load_state_dict L (scheduler st) (ck_scheduler ck)
               \<and> global_step st' = ck_global_step ck
               \<and> global_epoch st' = ck_global_epoch ck)
          \<and> fst ` set (new_state_dict sd []) = drop 7 ` fst ` set sd
          \<and> (distinct (map (drop 7 \<circ> fst) sd) \<longrightarrow>
               new_state_dict sd [] = map (\<lambda>(k, v). (drop 7 k, v)) sd)"
proof -
  let ?p = "checkpoint_path A step"
  let ?sd = "ck_state_dict ck"
  let ?st1 = "emit (Torch_load ?p) st"
  let ?first = "load_state_dict L (model st) ?sd"
  let ?second = "load_state_dict L (snd ?first) (new_state_dict ?sd [])"
  let ?res = "load_checkpoint L A step st"
  have m1: "model ?st1 = model st" by simp
  have a: "fst ?first = None \<Longrightarrow> fst ?res = None \<and> model (snd ?res) = snd ?first
      \<and> since st (snd ?res) = [Torch_load ?p, Load_model_state False,
                                  Load_optimizer_state, Load_scheduler_state]"
    using load_model_weights_first [of L ?st1 ?sd]
    by (simp add: load_checkpoint_unfold [OF assms] since_def emit_def)
  have b: "fst ?first = Some RuntimeError \<Longrightarrow> fst ?res = fst ?second \<and> model (snd ?res) = snd ?second
      \<and> (fst ?second = None \<longrightarrow>
            since st (snd ?res) = [Torch_load ?p, Load_model_state False,
                   Load_model_state True, Load_optimizer_state, Load_scheduler_state])"
    using load_model_weights_second [of L ?st1 ?sd]
    by (simp add: load_checkpoint_unfold [OF assms] since_def emit_def split: option.split)
  have c: "fst ?first = Some e \<Longrightarrow> e \<noteq> RuntimeError \<Longrightarrow>
      fst ?res = Some e \<and> Load_model_state True \<notin> set (since st (snd ?res))" for e
    using load_model_weights_other [of L ?st1 ?sd e]
    by (simp add: load_checkpoint_unfold [OF assms] since_def emit_def)
  have d: "fst ?res = None \<Longrightarrow>
      optimizer (snd ?res) = optimizer_load_state_dict L (optimizer st) (ck_optimizer ck)
      \<and> scheduler (snd ?res) = scheduler_load_state_dict L (scheduler st) (ck_scheduler ck)
      \<and> global_step (snd ?res) = ck_global_step ck
      \<and> global_epoch (snd ?res) = ck_global_epoch ck"
    by (simp add: load_checkpoint_unfold [OF assms] emit_def split: option.splits)
  have e: "fst ` set (new_state_dict ?sd []) = drop 7 ` fst ` set ?sd"
    using new_state_dict_keys [of ?sd "[]"] by (simp add: strip_module_def [abs_def])
  have f: "distinct (map (drop 7 \<circ> fst) ?sd) \<Longrightarrow>
      new_state_dict ?sd [] = map (\<lambda>(k, v). (drop 7 k, v)) ?sd"
    using new_state_dict_distinct [of ?sd "[]"] by (simp add: strip_module_def [abs_def])
  show ?thesis
    unfolding Let_def using a b c d e f by blast
qed

theorem load_checkpoint_fallback_witness:
  "ckpt_files toy_plain_state (checkpoint_path default_args 42) = Some toy_ckpt
   \<and> fst (load_state_dict toy_lib (model toy_plain_state) (ck_state_dict toy_ckpt)) = Some RuntimeError
   \<and> fst (load_checkpoint toy_lib default_args 42 toy_plain_state) = None
   \<and> model (snd (load_checkpoint toy_lib default_args 42 toy_plain_state)) = (False, [(''front.weight'', 9)])
   \<and> optimizer (snd (load_checkpoint toy_lib default_args 42 toy_plain_state)) = 11
   \<and> scheduler (snd (load_checkpoint toy_lib default_args 42 toy_plain_state)) = 12
   \<and> global_step (snd (load_checkpoint toy_lib default_args 42 toy_plain_state)) = 42
   \<and> global_epoch (snd (load_checkpoint toy_lib default_args 42 toy_plain_state)) = 6
   \<and> new_state_dict (ck_state_dict toy_ckpt) [] = [(''front.weight'', 9)]"
proof -
  have present: "ckpt_files toy_plain_state (checkpoint_path default_args 42) = Some toy_ckpt"
    by (simp add: toy_plain_state_def)
  have first: "load_state_dict toy_lib (model toy_plain_state) (ck_state_dict toy_ckpt)
                 = (Some RuntimeError, (False, [(''front.weight'', 5)]))"
    by (simp add: toy_lib_def toy_plain_state_def toy_ckpt_def)
  have nsd: "new_state_dict (ck_state_dict toy_ckpt) [] = [(''front.weight'', 9)]"
    by (simp add: toy_ckpt_def strip_module_def)
  have second: "load_state_dict toy_lib (False, [(''front.weight'', 5)]) [(''front.weight'', 9)]
                 = (None, (False, [(''front.weight'', 9)]))"
    by (simp add: toy_lib_def)
  have vals: "optimizer_load_state_dict toy_lib (optimizer toy_plain_state) (ck_optimizer toy_ckpt) = 11"
     "scheduler_load_state_dict toy_lib (scheduler toy_plain_state) (ck_scheduler toy_ckpt) = 12"
     "ck_global_step toy_ckpt = 42" "ck_global_epoch toy_ckpt = 6"
    by (simp_all add: toy_lib_def toy_ckpt_def)
  show ?thesis
    using load_checkpoint_fallback [OF present, of toy_lib] present
    by (simp add: Let_def first nsd second vals)
qed

subsection \<open>One pass of the epoch loop\<close>

lemma save_if_best_trace:
  "trace (save_if_best L A epoch eloss st) = trace st @
     (if eloss < test_loss st then
        Torch_save (checkpoint_path A (global_step st)) # Model_eval #
          (case synth_loader L of [] \<Rightarrow> []
           | b # bs \<Rightarrow> [Reverse b, Write_wav (wav_name A (global_step st) 0)])
      else [])"
  by (simp add: save_if_best_def synthesize_trace save_checkpoint_trace save_checkpoint_fields
        split: list.split)

lemma save_if_best_fields:
  "test_loss (save_if_best L A epoch eloss st) = min (test_loss st) eloss"
  "global_step (save_if_best L A epoch eloss st) = global_step st"
  "global_epoch (save_if_best L A epoch eloss st) = global_epoch st"
  "sampler_epoch (save_if_best L A epoch eloss st) = sampler_epoch st"
  "list_train_loss (save_if_best L A epoch eloss st) = list_train_loss st"
  "list_loss (save_if_best L A epoch eloss st) = list_loss st"
  "npy_files (save_if_best L A epoch eloss st) = npy_files st"
  "log_files (save_if_best L A epoch eloss st) = log_files st"
  "optimizer (save_if_best L A epoch eloss st) = optimizer st"
  "scheduler (save_if_best L A epoch eloss st) = scheduler st"
  by (simp_all add: save_if_best_def synthesize_fields save_checkpoint_fields min_def)

lemma save_if_best_ckpt:
  "ckpt_files (save_if_best L A epoch eloss st) =
     (if eloss < test_loss st then
        (ckpt_files st)(checkpoint_path A (global_step st) \<mapsto>
          \<lparr> ck_state_dict = state_dict L (model st),
            ck_optimizer = optimizer_state_dict L (optimizer st),
            ck_scheduler = scheduler_state_dict L (scheduler st),
            ck_global_step = global_step st, ck_global_epoch = epoch \<rparr>)
      else ckpt_files st)"
  by (simp add: save_if_best_def synthesize_fields save_checkpoint_file)

lemma record_losses_trace:
  "trace (record_losses A tloss eloss epoch st) = trace st @
     [Np_save (train_npy_path A), Np_save (eval_npy_path A), Log_append (log_file_path A), Gc_collect]"
  by (simp add: record_losses_def Let_def emit_def)

lemma record_losses_fields:
  "list_train_loss (record_losses A tloss eloss epoch st) = list_train_loss st @ [tloss]"
  "list_loss (record_losses A tloss eloss epoch st) = list_loss st @ [eloss]"
  "test_loss (record_losses A tloss eloss epoch st) = test_loss st"
  "global_step (record_losses A tloss eloss epoch st) = global_step st"
  "global_epoch (record_losses A tloss eloss epoch st) = global_epoch st"
  "sampler_epoch (record_losses A tloss eloss epoch st) = sampler_epoch st"
  "model (record_losses A tloss eloss epoch st) = model st"
  "optimizer (record_losses A tloss eloss epoch st) = optimizer st"
  "scheduler (record_losses A tloss eloss epoch st) = scheduler st"
  "ckpt_files (record_losses A tloss eloss epoch st) = ckpt_files st"
  "wav_files (record_losses A tloss eloss epoch st) = wav_files st"
  "npy_files (record_losses A tloss eloss epoch st) =
     (npy_files st)(train_npy_path A \<mapsto> list_train_loss st @ [tloss],
                    eval_npy_path A \<mapsto> list_loss st @ [eloss])"
  "log_files (record_losses A tloss eloss epoch st) =
     (log_files st)(log_file_path A \<mapsto>
        (case log_files st (log_file_path A) of None \<Rightarrow> [] | Some ls \<Rightarrow> ls)
        @ [log_state A tloss eloss epoch])"
  by (simp_all add: record_losses_def Let_def emit_def)

lemma npy_paths_differ: "train_npy_path A \<noteq> eval_npy_path A"
proof
  assume "train_npy_path A = eval_npy_path A"
  then have "length (train_npy_path A) = length (eval_npy_path A)" by simp
  then show False by (simp add: train_npy_path_def eval_npy_path_def)
qed

lemma epoch_body_cases:
  "epoch_body L A epoch st =
     (if train_loader L epoch = [] then (Some ZeroDivisionError, snd (train L epoch st))
      else if local_rank A > 0 then (None, emit Gc_collect (snd (train L epoch st)))
      else if test_loader L = [] then
        (Some ZeroDivisionError, snd (evaluate L (snd (train L epoch st))))
      else (None, record_losses A (projr (fst (train L epoch st)))
                    (projr (fst (evaluate L (snd (train L epoch st))))) epoch
                    (save_if_best L A epoch (projr (fst (evaluate L (snd (train L epoch st)))))
                       (snd (evaluate L (snd (train L epoch st))))))) "
proof -
  obtain r1 st1 where t: "train L epoch st = (r1, st1)" by (cases "train L epoch st")
  obtain r2 st2 where e: "evaluate L st1 = (r2, st2)" by (cases "evaluate L st1")
  have i1: "isl r1 = (train_loader L epoch = [])" using train_result [of L epoch st] t by simp
  have i2: "isl r2 = (test_loader L = [])" using evaluate_result [of L st1] e by simp
  have z1: "train_loader L epoch = [] \<Longrightarrow> r1 = Inl ZeroDivisionError"
    using t by (simp add: train_unfold)
  have z2: "test_loader L = [] \<Longrightarrow> r2 = Inl ZeroDivisionError"
    using e by (simp add: evaluate_unfold)
  show ?thesis
    using t e i1 i2 z1 z2
    by (cases r1; cases r2) (auto simp: epoch_body_def)
qed

lemma step_groups_append:
  "step_groups xs \<Longrightarrow> step_groups ys \<Longrightarrow> step_groups (xs @ ys)"
  by (induction xs rule: step_groups.induct) auto

lemma sched_then_opt_append:
  "sched_then_opt xs \<Longrightarrow> sched_then_opt ys \<Longrightarrow> sched_then_opt (xs @ ys)"
  by (induction xs rule: sched_then_opt.induct) auto

lemma forward_batches_append: "forward_batches (xs @ ys) = forward_batches xs @ forward_batches ys"
  by (induction xs rule: forward_batches.induct) auto

lemma set_epochs_append: "set_epochs (xs @ ys) = set_epochs xs @ set_epochs ys"
  by (induction xs rule: set_epochs.induct) auto

lemma opt_levels_append: "opt_levels (xs @ ys) = opt_levels xs @ opt_levels ys"
  by (induction xs rule: opt_levels.induct) auto

lemma train_steps_ConsE:
  assumes "train_steps (b # bs) tr"
  obtains log_p logdet tr' where
    "tr = [Scheduler_step, Zero_grad, Forward b log_p logdet,
           Scaled_backward (- (log_p + logdet)), Clip_grad_norm 1, Optimizer_step] @ tr'"
    "train_steps bs tr'"
proof -
  from assms obtain e1 e2 e3 e4 e5 e6 tr' where tr: "tr = e1 # e2 # e3 # e4 # e5 # e6 # tr'"
    by (cases "(b # bs, tr)" rule: train_steps.cases) auto
  from assms tr obtain b' log_p logdet where e3: "e3 = Forward b' log_p logdet"
    by (cases e3) auto
  from assms tr e3 that show thesis by auto
qed

lemma train_steps_props:
  "train_steps bs tr \<Longrightarrow>
     step_groups (filter is_step_event tr)
   \<and> sched_then_opt (filter is_sched_or_opt tr)
   \<and> forward_batches tr = bs
   \<and> set_epochs tr = [] \<and> opt_levels tr = []
   \<and> filter beyond_training tr = []
   \<and> filter (\<lambda>e. phase e \<noteq> 6) tr = []
   \<and> length (filter (\<lambda>e. e = Scheduler_step) tr) = length bs"
proof (induction bs arbitrary: tr)
  case Nil
  then show ?case by simp
next
  case (Cons b bs)
  from Cons.prems obtain log_p logdet tr' where
    tr: "tr = [Scheduler_step, Zero_grad, Forward b log_p logdet,
           Scaled_backward (- (log_p + logdet)), Clip_grad_norm 1, Optimizer_step] @ tr'"
    and rest: "train_steps bs tr'"
    by (rule train_steps_ConsE)
  from Cons.IH [OF rest] show ?case by (simp add: tr)
qed

lemma quiet_append: "quiet xs \<Longrightarrow> quiet ys \<Longrightarrow> quiet (xs @ ys)"
  by (simp add: quiet_def forward_batches_append set_epochs_append opt_levels_append)

lemma quiet_simps:
  "quiet []"
  "quiet (Gc_collect # tr) = quiet tr"
  "quiet (Model_eval # tr) = quiet tr"
  "quiet (Forward_no_grad b # tr) = quiet tr"
  "quiet (Torch_save p # tr) = quiet tr"
  "quiet (Reverse b # tr) = quiet tr"
  "quiet (Write_wav p # tr) = quiet tr"
  "quiet (Np_save p # tr) = quiet tr"
  "quiet (Log_append p # tr) = quiet tr"
  by (simp_all add: quiet_def)

lemma quiet_map_forward: "quiet (map Forward_no_grad bs)"
  by (induction bs) (simp_all add: quiet_simps)

lemma quiet_after_train: "quiet (after_train L A epoch st1)"
  by (simp add: after_train_def quiet_simps quiet_append quiet_map_forward split: list.split)

lemma epoch_body_trace:
  "\<exists>tr. train_steps (train_loader L epoch) tr
      \<and> trace (snd (epoch_body L A epoch st)) =
          trace st @ Set_epoch epoch # Model_train # tr @ Gc_collect
            # after_train L A epoch (snd (train L epoch st))"
proof -
  let ?st1 = "snd (train L epoch st)"
  let ?st2 = "snd (evaluate L ?st1)"
  obtain tr where tr: "trace ?st1 = trace st @ Set_epoch epoch # Model_train # tr @ [Gc_collect]"
      "train_steps (train_loader L epoch) tr"
    using train_trace [of L epoch st] by blast
  have "trace (snd (epoch_body L A epoch st)) = trace ?st1 @ after_train L A epoch ?st1"
    by (simp add: epoch_body_cases after_train_def record_losses_trace save_if_best_trace
          evaluate_trace evaluate_fields split: list.split)
  with tr show ?thesis by auto
qed

subsection \<open>The epoch loop\<close>

lemma epoch_body_segment:
  "\<exists>tr. trace (snd (epoch_body L A epoch st)) = trace st @ tr
      \<and> step_groups (filter is_step_event tr)
      \<and> sched_then_opt (filter is_sched_or_opt tr)
      \<and> forward_batches tr = train_loader L epoch
      \<and> set_epochs tr = [epoch] \<and> opt_levels tr = []
      \<and> filter (\<lambda>e. phase e \<noteq> 6) tr = []
      \<and> (local_rank A > 0 \<longrightarrow> filter beyond_training tr = [])"
proof -
  let ?after = "after_train L A epoch (snd (train L epoch st))"
  obtain tr where tr: "train_steps (train_loader L epoch) tr"
    and t: "trace (snd (epoch_body L A epoch st)) =
          trace st @ Set_epoch epoch # Model_train # tr @ Gc_collect # ?after"
    using epoch_body_trace [of L epoch A st] by blast
  note p = train_steps_props [OF tr]
  have q: "quiet ?after" by (rule quiet_after_train)
  have b: "local_rank A > 0 \<Longrightarrow> filter beyond_training ?after = []"
    by (simp add: after_train_def)
  let ?seg = "Set_epoch epoch # Model_train # tr @ Gc_collect # ?after"
  have "step_groups (filter is_step_event ?seg)"
    using p q by (simp add: quiet_def)
  moreover have "sched_then_opt (filter is_sched_or_opt ?seg)"
    using p q by (simp add: quiet_def)
  moreover have "forward_batches ?seg = train_loader L epoch"
    using p q by (simp add: quiet_def forward_batches_append)
  moreover have "set_epochs ?seg = [epoch]"
    using p q by (simp add: quiet_def set_epochs_append)
  moreover have "opt_levels ?seg = []"
    using p q by (simp add: quiet_def opt_levels_append)
  moreover have "filter (\<lambda>e. phase e \<noteq> 6) ?seg = []"
    using p q by (simp add: quiet_def)
  moreover have "local_rank A > 0 \<longrightarrow> filter beyond_training ?seg = []"
    using p b by simp
  ultimately show ?thesis using t by blast
qed

lemma epoch_loop_Cons:
  "epoch_loop L A (epoch # es) st =
     (if fst (epoch_body L A epoch st) = None then epoch_loop L A es (snd (epoch_body L A epoch st))
      else epoch_body L A epoch st)"
  by (cases "epoch_body L A epoch st") (auto split: option.split)

lemma epoch_loop_Cons_ok:
  "fst (epoch_body L A epoch st) = None \<Longrightarrow>
   epoch_loop L A (epoch # es) st = epoch_loop L A es (snd (epoch_body L A epoch st))"
  by (cases "epoch_body L A epoch st") auto

lemma epoch_loop_Cons_err:
  "fst (epoch_body L A epoch st) \<noteq> None \<Longrightarrow>
   epoch_loop L A (epoch # es) st = epoch_body L A epoch st"
  by (cases "epoch_body L A epoch st") auto

lemma epoch_loop_segment:
  "\<exists>tr. trace (snd (epoch_loop L A es st)) = trace st @ tr
      \<and> step_groups (filter is_step_event tr)
      \<and> sched_then_opt (filter is_sched_or_opt tr)
      \<and> forward_batches tr = concat (map (train_loader L) (set_epochs tr))
      \<and> opt_levels tr = []
      \<and> filter (\<lambda>e. phase e \<noteq> 6) tr = []
      \<and> (local_rank A > 0 \<longrightarrow> filter beyond_training tr = [])
      \<and> set_epochs tr = take (length (set_epochs tr)) es
      \<and> (fst (epoch_loop L A es st) = None \<longrightarrow> set_epochs tr = es)"
proof (induction es arbitrary: st)
  case Nil
  show ?case by simp
next
  case (Cons epoch es)
  let ?st1 = "snd (epoch_body L A epoch st)"
  obtain a where a: "trace ?st1 = trace st @ a"
      "step_groups (filter is_step_event a)"
      "sched_then_opt (filter is_sched_or_opt a)"
      "forward_batches a = train_loader L epoch"
      "set_epochs a = [epoch]" "opt_levels a = []"
      "filter (\<lambda>e. phase e \<noteq> 6) a = []"
      "local_rank A > 0 \<longrightarrow> filter beyond_training a = []"
    using epoch_body_segment [of L A epoch st] by (elim exE conjE) (rule that; assumption)
  show ?case
  proof (cases "fst (epoch_body L A epoch st) = None")
    case False
    then have eq: "epoch_loop L A (epoch # es) st = epoch_body L A epoch st"
      by (rule epoch_loop_Cons_err)
    have 8: "set_epochs a = take (length (set_epochs a)) (epoch # es)"
      using a(5) by simp
    have 9: "fst (epoch_body L A epoch st) = None \<longrightarrow> set_epochs a = epoch # es"
      using False by blast
    have 4: "forward_batches a = concat (map (train_loader L) (set_epochs a))"
      using a(4,5) by simp
    note a1 = a(1) and a2 = a(2) and a3 = a(3) and a6 = a(6) and a7 = a(7) and a8 = a(8)
    show ?thesis
      unfolding eq by (rule exI [of _ a]) (intro conjI; fact)
  next
    case True
    then have eq: "epoch_loop L A (epoch # es) st = epoch_loop L A es ?st1"
      by (rule epoch_loop_Cons_ok)
    obtain b where b: "trace (snd (epoch_loop L A es ?st1)) = trace ?st1 @ b"
      "step_groups (filter is_step_event b)"
      "sched_then_opt (filter is_sched_or_opt b)"
      "forward_batches b = concat (map (train_loader L) (set_epochs b))"
      "opt_levels b = []"
      "filter (\<lambda>e. phase e \<noteq> 6) b = []"
      "local_rank A > 0 \<longrightarrow> filter beyond_training b = []"
      "set_epochs b = take (length (set_epochs b)) es"
      "fst (epoch_loop L A es ?st1) = None \<longrightarrow> set_epochs b = es"
      using Cons.IH [of ?st1] by (elim exE conjE) (rule that; assumption)
    have 1: "trace (snd (epoch_loop L A (epoch # es) st)) = trace st @ (a @ b)"
      using a(1) b(1) eq by simp
    have 2: "step_groups (filter is_step_event (a @ b))"
      using a(2) b(2) by (simp add: step_groups_append)
    have 3: "sched_then_opt (filter is_sched_or_opt (a @ b))"
      using a(3) b(3) by (simp add: sched_then_opt_append)
    have 4: "forward_batches (a @ b) = concat (map (train_loader L) (set_epochs (a @ b)))"
      using a(4,5) b(4) by (simp add: forward_batches_append set_epochs_append)
    have 5: "opt_levels (a @ b) = []" using a(6) b(5) by (simp add: opt_levels_append)
    have 6: "filter (\<lambda>e. phase e \<noteq> 6) (a @ b) = []" using a(7) b(6) by simp
    have 7: "local_rank A > 0 \<longrightarrow> filter beyond_training (a @ b) = []" using a(8) b(7) by simp
    have 8: "set_epochs (a @ b) = take (length (set_epochs (a @ b))) (epoch # es)"
      using a(5) b(8) by (simp add: set_epochs_append)
    have 9: "fst (epoch_loop L A (epoch # es) st) = None \<longrightarrow> set_epochs (a @ b) = epoch # es"
      using a(5) b(9) eq by (simp add: set_epochs_append)
    show ?thesis
      by (rule exI [of _ "a @ b"]) (intro conjI; fact)
  qed
qed

lemma epoch_body_fields:
  "global_epoch (snd (epoch_body L A epoch st)) = global_epoch st"
  by (simp add: epoch_body_cases record_losses_fields save_if_best_fields evaluate_fields
        train_fields)

lemma epoch_loop_global_epoch:
  "global_epoch (snd (epoch_loop L A es st)) = global_epoch st"
  by (induction es arbitrary: st) (simp_all add: epoch_loop_Cons epoch_body_fields del: epoch_loop.simps(2))

lemma epoch_body_rank_pos:
  assumes "local_rank A > 0"
  shows "ckpt_files (snd (epoch_body L A epoch st)) = ckpt_files st"
    "npy_files (snd (epoch_body L A epoch st)) = npy_files st"
    "log_files (snd (epoch_body L A epoch st)) = log_files st"
    "wav_files (snd (epoch_body L A epoch st)) = wav_files st"
    "list_train_loss (snd (epoch_body L A epoch st)) = list_train_loss st"
    "list_loss (snd (epoch_body L A epoch st)) = list_loss st"
    "test_loss (snd (epoch_body L A epoch st)) = test_loss st"
  using assms by (simp_all add: epoch_body_cases train_fields)

lemma epoch_loop_rank_pos:
  assumes "local_rank A > 0"
  shows "ckpt_files (snd (epoch_loop L A es st)) = ckpt_files st"
    "npy_files (snd (epoch_loop L A es st)) = npy_files st"
    "log_files (snd (epoch_loop L A es st)) = log_files st"
    "wav_files (snd (epoch_loop L A es st)) = wav_files st"
    "list_train_loss (snd (epoch_loop L A es st)) = list_train_loss st"
    "list_loss (snd (epoch_loop L A es st)) = list_loss st"
    "test_loss (snd (epoch_loop L A es st)) = test_loss st"
  using assms
  by (induction es arbitrary: st)
     (simp_all add: epoch_loop_Cons epoch_body_rank_pos del: epoch_loop.simps(2))

subsection \<open>Setup and resume\<close>

lemma startup_InrE:
  assumes "startup L A environ = Inr (ws, tr)"
  obtains w where "environ ''WORLD_SIZE'' = Some w" "py_int L w = Inr ws"
    "tr = [Parse_args, Init_process_group ws (local_rank A), Set_device (local_rank A)]
          @ map Makedirs (rank0_dirs L A)
          @ [New_dataset (data_path A) True, New_dataset (data_path A) False, New_sampler,
             New_loader Train_loader, New_loader Test_loader, New_loader Synth_loader]"
  using assms by (auto simp: startup_def split: option.splits sum.splits)

lemma main_init_Inr:
  assumes "main_init L A ws tr D = Inr st0"
  shows "ws \<noteq> 0"
    "load_step A > 0 \<or> train_loader L 0 \<noteq> []"
    "trace st0 = tr @ [New_model (load_step A > 0), New_Adam (learning_rate A),
                       New_StepLR (200000 div ws) (1 / 2)]
                 @ (if load_step A > 0 then [] else [Init_forward (hd (train_loader L 0))])
                 @ [Amp_init ''O0'', Wrap_DDP]"
    "global_step st0 = 0" "global_epoch st0 = 0" "sampler_epoch st0 = 0"
    "ckpt_files st0 = d_ckpt_files D" "npy_files st0 = d_npy_files D"
    "log_files st0 = d_log_files D" "wav_files st0 = d_wav_files D"
    "scheduler st0 = StepLR L (Adam L (build_model L A) (learning_rate A)) (200000 div ws) (1 / 2)"
    "model st0 = DistributedDataParallel L (fst (amp_initialize L
        (if load_step A > 0 then build_model L A
         else init_forward L (build_model L A) (hd (train_loader L 0)))
        (Adam L (build_model L A) (learning_rate A)) ''O0''))"
    "optimizer st0 = snd (amp_initialize L
        (if load_step A > 0 then build_model L A
         else init_forward L (build_model L A) (hd (train_loader L 0)))
        (Adam L (build_model L A) (learning_rate A)) ''O0'')"
  using assms by (auto simp: main_init_def Let_def split: if_splits)

lemma setup_trace_eq:
  assumes "startup L A environ = Inr (ws, tr)" "main_init L A ws tr D = Inr st0"
  shows "trace st0 = setup_trace L A ws"
proof -
  from assms(1) obtain w where
    "tr = [Parse_args, Init_process_group ws (local_rank A), Set_device (local_rank A)]
          @ map Makedirs (rank0_dirs L A)
          @ [New_dataset (data_path A) True, New_dataset (data_path A) False, New_sampler,
             New_loader Train_loader, New_loader Test_loader, New_loader Synth_loader]"
    by (rule startup_InrE)
  with main_init_Inr(3) [OF assms(2)] show ?thesis by (simp add: setup_trace_def)
qed

lemma main_InrE:
  assumes "main L A environ D = Inr x"
  obtains ws tr st0 where "startup L A environ = Inr (ws, tr)" "main_init L A ws tr D = Inr st0"
    "x = (if fst (resume L A st0) = None
          then epoch_loop L A (epoch_range A (snd (resume L A st0))) (snd (resume L A st0))
          else resume L A st0)"
proof -
  from assms obtain ws tr where s: "startup L A environ = Inr (ws, tr)"
    by (cases "startup L A environ") (auto simp: main_def)
  from assms s obtain st0 where i: "main_init L A ws tr D = Inr st0"
    by (cases "main_init L A ws tr D") (auto simp: main_def)
  obtain r st1 where rs: "resume L A st0 = (r, st1)" by (cases "resume L A st0")
  from assms s i rs have "x = (if fst (resume L A st0) = None
          then epoch_loop L A (epoch_range A (snd (resume L A st0))) (snd (resume L A st0))
          else resume L A st0)"
    by (cases r) (auto simp: main_def)
  with s i show thesis by (rule that)
qed

lemma load_model_weights_trace:
  "\<exists>tr. trace (snd (load_model_weights L sd st)) = trace st @ tr
      \<and> filter (\<lambda>e. phase e \<noteq> 5) tr = []"
  by (simp add: load_model_weights_def Let_def split: option.split)

lemma load_checkpoint_trace:
  "\<exists>tr. trace (snd (load_checkpoint L A step st)) = trace st @ Torch_load (checkpoint_path A step) # tr
      \<and> filter (\<lambda>e. phase e \<noteq> 5) tr = []"
proof (cases "ckpt_files st (checkpoint_path A step)")
  case None
  then show ?thesis by (simp add: load_checkpoint_missing)
next
  case (Some ck)
  let ?st1 = "emit (Torch_load (checkpoint_path A step)) st"
  obtain tr where tr: "trace (snd (load_model_weights L (ck_state_dict ck) ?st1)) = trace ?st1 @ tr"
     "filter (\<lambda>e. phase e \<noteq> 5) tr = []"
    using load_model_weights_trace [of L "ck_state_dict ck" ?st1] by blast
  show ?thesis
  proof (cases "fst (load_model_weights L (ck_state_dict ck) ?st1)")
    case None
    then show ?thesis using tr
      by (intro exI [of _ "tr @ [Load_optimizer_state, Load_scheduler_state]"])
         (simp add: load_checkpoint_unfold [OF Some])
  next
    case (Some e)
    then show ?thesis using tr
      by (intro exI [of _ tr]) (simp add: load_checkpoint_unfold [OF \<open>ckpt_files st (checkpoint_path A step) = Some ck\<close>])
  qed
qed

lemma load_checkpoint_fields:
  "sampler_epoch (snd (load_checkpoint L A step st)) = sampler_epoch st"
  "list_train_loss (snd (load_checkpoint L A step st)) = list_train_loss st"
  "list_loss (snd (load_checkpoint L A step st)) = list_loss st"
  "test_loss (snd (load_checkpoint L A step st)) = test_loss st"
  "ckpt_files (snd (load_checkpoint L A step st)) = ckpt_files st"
  "npy_files (snd (load_checkpoint L A step st)) = npy_files st"
  "log_files (snd (load_checkpoint L A step st)) = log_files st"
  "wav_files (snd (load_checkpoint L A step st)) = wav_files st"
  by (cases "ckpt_files st (checkpoint_path A step)";
      simp add: load_checkpoint_missing load_checkpoint_unfold load_model_weights_fields
        split: option.split)+

lemma resume_fresh:
  "load_step A = 0 \<Longrightarrow>
   resume L A st = (None, st\<lparr>list_train_loss := [], list_loss := [], test_loss := 100\<rparr>)"
  by (simp add: resume_def)

lemma resume_unfold:
  assumes "load_step A \<noteq> 0"
  shows "resume L A st =
     (if fst (load_checkpoint L A (load_step A) st) \<noteq> None then load_checkpoint L A (load_step A) st
      else case npy_files st (train_npy_path A) of
          None \<Rightarrow> (Some FileNotFoundError,
                    emit (Np_load (train_npy_path A)) (snd (load_checkpoint L A (load_step A) st)))
        | Some loaded_train \<Rightarrow>
           (case npy_files st (eval_npy_path A) of
              None \<Rightarrow> (Some FileNotFoundError,
                        emit (Np_load (eval_npy_path A)) (emit (Np_load (train_npy_path A))
                          (snd (load_checkpoint L A (load_step A) st))))
            | Some loaded \<Rightarrow>
               (if py_take (global_epoch (snd (load_checkpoint L A (load_step A) st))) loaded = []
                then (Some ValueError,
                  (emit (Np_load (eval_npy_path A)) (emit (Np_load (train_npy_path A))
                          (snd (load_checkpoint L A (load_step A) st))))
                   \<lparr>list_train_loss := py_take (global_epoch (snd (load_checkpoint L A (load_step A) st))) loaded_train,
                     list_loss := py_take (global_epoch (snd (load_checkpoint L A (load_step A) st))) loaded\<rparr>)
                else (None,
                  (emit (Np_load (eval_npy_path A)) (emit (Np_load (train_npy_path A))
                          (snd (load_checkpoint L A (load_step A) st))))
                   \<lparr>list_train_loss := py_take (global_epoch (snd (load_checkpoint L A (load_step A) st))) loaded_train,
                     list_loss := py_take (global_epoch (snd (load_checkpoint L A (load_step A) st))) loaded,
                     test_loss := Min (set (py_take (global_epoch (snd (load_checkpoint L A (load_step A) st))) loaded))\<rparr>))))"
proof -
  obtain r st1 where lc: "load_checkpoint L A (load_step A) st = (r, st1)"
    by (cases "load_checkpoint L A (load_step A) st")
  have n: "npy_files st1 = npy_files st"
    using load_checkpoint_fields(6) [of L A "load_step A" st] lc by simp
  show ?thesis
    using assms lc n
    by (cases r) (simp_all add: resume_def Let_def emit_def split: option.split)
qed

lemma resume_trace:
  assumes "load_step A \<noteq> 0"
  shows "\<exists>tr. trace (snd (resume L A st)) =
            trace st @ Torch_load (checkpoint_path A (load_step A)) # tr
      \<and> filter (\<lambda>e. phase e \<noteq> 5) tr = []"
proof -
  let ?lc = "load_checkpoint L A (load_step A) st"
  obtain tr where tr: "trace (snd ?lc) = trace st @ Torch_load (checkpoint_path A (load_step A)) # tr"
     "filter (\<lambda>e. phase e \<noteq> 5) tr = []"
    using load_checkpoint_trace [of L A "load_step A" st] by blast
  have "trace (snd (resume L A st)) = trace (snd ?lc)
      \<or> trace (snd (resume L A st)) = trace (snd ?lc) @ [Np_load (train_npy_path A)]
      \<or> trace (snd (resume L A st)) = trace (snd ?lc) @ [Np_load (train_npy_path A), Np_load (eval_npy_path A)]"
    by (simp add: resume_unfold [OF assms] split: option.split)
  then consider
      "trace (snd (resume L A st)) = trace (snd ?lc)"
    | "trace (snd (resume L A st)) = trace (snd ?lc) @ [Np_load (train_npy_path A)]"
    | "trace (snd (resume L A st)) = trace (snd ?lc) @ [Np_load (train_npy_path A), Np_load (eval_npy_path A)]"
    by blast
  then show ?thesis
  proof cases
    case 1
    with tr show ?thesis by (intro exI [of _ tr]) simp
  next
    case 2
    with tr show ?thesis by (intro exI [of _ "tr @ [Np_load (train_npy_path A)]"]) simp
  next
    case 3
    with tr show ?thesis
      by (intro exI [of _ "tr @ [Np_load (train_npy_path A), Np_load (eval_npy_path A)]"]) simp
  qed
qed

lemma resume_ok:
  assumes "load_step A \<noteq> 0" "resume L A st = (None, st1)"
  shows "fst (load_checkpoint L A (load_step A) st) = None"
    "model st1 = model (snd (load_checkpoint L A (load_step A) st))"
    "optimizer st1 = optimizer (snd (load_checkpoint L A (load_step A) st))"
    "scheduler st1 = scheduler (snd (load_checkpoint L A (load_step A) st))"
    "global_step st1 = global_step (snd (load_checkpoint L A (load_step A) st))"
    "global_epoch st1 = global_epoch (snd (load_checkpoint L A (load_step A) st))"
    "\<exists>loaded. npy_files st (eval_npy_path A) = Some loaded
       \<and> list_loss st1 = py_take (global_epoch st1) loaded"
    "\<exists>loaded. npy_files st (train_npy_path A) = Some loaded
       \<and> list_train_loss st1 = py_take (global_epoch st1) loaded"
    "list_loss st1 \<noteq> []"
    "test_loss st1 = Min (set (list_loss st1))"
    "ckpt_files st1 = ckpt_files st" "npy_files st1 = npy_files st"
    "log_files st1 = log_files st" "wav_files st1 = wav_files st"
  using assms(2) unfolding resume_unfold [OF assms(1)]
  by (auto split: if_splits option.splits simp: load_checkpoint_fields)

lemma resume_files:
  "ckpt_files (snd (resume L A st)) = ckpt_files st"
  "npy_files (snd (resume L A st)) = npy_files st"
  "log_files (snd (resume L A st)) = log_files st"
  "wav_files (snd (resume L A st)) = wav_files st"
  by (cases "load_step A = 0";
      simp add: resume_fresh resume_unfold load_checkpoint_fields split: option.split)+

subsection \<open>The whole run\<close>

lemma phase5_event:
  "phase e = 5 \<Longrightarrow> \<not> is_step_event e \<and> \<not> is_sched_or_opt e \<and> \<not> beyond_training e
     \<and> forward_batches (e # tr) = forward_batches tr
     \<and> set_epochs (e # tr) = set_epochs tr
     \<and> opt_levels (e # tr) = opt_levels tr"
  by (cases e) simp_all

lemma phase5_quiet:
  assumes "filter (\<lambda>e. phase e \<noteq> 5) tr = []"
  shows "filter is_step_event tr = [] \<and> filter is_sched_or_opt tr = []
   \<and> forward_batches tr = [] \<and> set_epochs tr = [] \<and> opt_levels tr = []
   \<and> filter beyond_training tr = []"
proof -
  from assms have "\<forall>e\<in>set tr. phase e = 5" by (simp add: filter_empty_conv)
  then show ?thesis
  proof (induction tr)
    case Nil
    show ?case by simp
  next
    case (Cons e tr)
    then have e: "phase e = 5" and rest: "\<forall>e\<in>set tr. phase e = 5" by simp_all
    note p = phase5_event [OF e, of tr]
    from Cons.IH [OF rest] p show ?case by simp
  qed
qed

lemma phase_const_sorted:
  assumes "filter (\<lambda>e. phase e \<noteq> k) tr = []"
  shows "sorted (map phase tr)" "\<forall>e\<in>set tr. phase e = k"
proof -
  show a: "\<forall>e\<in>set tr. phase e = k" using assms by (simp add: filter_empty_conv)
  then have "map phase tr = replicate (length tr) k" by (induction tr) simp_all
  then show "sorted (map phase tr)" by simp
qed

lemma setup_trace_props:
  "filter is_step_event (setup_trace L A ws) = []"
  "filter is_sched_or_opt (setup_trace L A ws) = []"
  "forward_batches (setup_trace L A ws) = []"
  "set_epochs (setup_trace L A ws) = []"
  "opt_levels (setup_trace L A ws) = [''O0'']"
  "filter beyond_training (setup_trace L A ws) = map Makedirs (rank0_dirs L A)"
  "sorted (map phase (setup_trace L A ws))"
  "\<forall>e\<in>set (setup_trace L A ws). phase e \<le> 4"
proof -
  have m: "filter is_step_event (map Makedirs ds) = []"
     "filter is_sched_or_opt (map Makedirs ds) = []"
     "forward_batches (map Makedirs ds) = []"
     "set_epochs (map Makedirs ds) = []"
     "opt_levels (map Makedirs ds) = []"
     "filter beyond_training (map Makedirs ds) = map Makedirs ds"
     "map (phase \<circ> Makedirs) ds = replicate (length ds) 2" for ds :: "string list"
    by (induction ds) simp_all
  show "filter is_step_event (setup_trace L A ws) = []"
    by (simp add: setup_trace_def m)
  show "filter is_sched_or_opt (setup_trace L A ws) = []"
    by (simp add: setup_trace_def m)
  show "forward_batches (setup_trace L A ws) = []"
    by (simp add: setup_trace_def m forward_batches_append)
  show "set_epochs (setup_trace L A ws) = []"
    by (simp add: setup_trace_def m set_epochs_append)
  show "opt_levels (setup_trace L A ws) = [''O0'']"
    by (simp add: setup_trace_def m opt_levels_append)
  show "filter beyond_training (setup_trace L A ws) = map Makedirs (rank0_dirs L A)"
    by (simp add: setup_trace_def m)
  show "sorted (map phase (setup_trace L A ws))"
    by (simp add: setup_trace_def m sorted_append)
  show "\<forall>e\<in>set (setup_trace L A ws). phase e \<le> 4"
    by (auto simp: setup_trace_def)
qed

lemma main_trace:
  assumes "main L A environ D = Inr (r, st)"
  obtains ws w tr_r tr_l where
    "environ ''WORLD_SIZE'' = Some w" "py_int L w = Inr ws" "ws \<noteq> 0"
    "load_step A > 0 \<or> train_loader L 0 \<noteq> []"
    "trace st = setup_trace L A ws @ tr_r @ tr_l"
    "filter (\<lambda>e. phase e \<noteq> 5) tr_r = []"
    "load_step A = 0 \<longrightarrow> tr_r = []"
    "load_step A \<noteq> 0 \<longrightarrow> (\<exists>t. tr_r = Torch_load (checkpoint_path A (load_step A)) # t)"
    "step_groups (filter is_step_event tr_l)"
    "sched_then_opt (filter is_sched_or_opt tr_l)"
    "forward_batches tr_l = concat (map (train_loader L) (set_epochs tr_l))"
    "opt_levels tr_l = []"
    "filter (\<lambda>e. phase e \<noteq> 6) tr_l = []"
    "local_rank A > 0 \<longrightarrow> filter beyond_training tr_l = []"
    "set_epochs tr_l = take (length (set_epochs tr_l)) [global_epoch st + 1 .. epochs A]"
    "r = None \<longrightarrow> set_epochs tr_l = [global_epoch st + 1 .. epochs A]"
proof -
  from assms obtain ws tr st0 where s: "startup L A environ = Inr (ws, tr)"
    and i: "main_init L A ws tr D = Inr st0"
    and x: "(r, st) = (if fst (resume L A st0) = None
          then epoch_loop L A (epoch_range A (snd (resume L A st0))) (snd (resume L A st0))
          else resume L A st0)"
    by (rule main_InrE)
  from s obtain w where w: "environ ''WORLD_SIZE'' = Some w" "py_int L w = Inr ws"
    by (rule startup_InrE)
  note ws = main_init_Inr(1,2) [OF i]
  have t0: "trace st0 = setup_trace L A ws" using s i by (rule setup_trace_eq)
  let ?st1 = "snd (resume L A st0)"
  obtain tr_r where tr_r: "trace ?st1 = trace st0 @ tr_r"
     "filter (\<lambda>e. phase e \<noteq> 5) tr_r = []"
     "load_step A = 0 \<longrightarrow> tr_r = []"
     "load_step A \<noteq> 0 \<longrightarrow> (\<exists>t. tr_r = Torch_load (checkpoint_path A (load_step A)) # t)"
  proof (cases "load_step A = 0")
    case True
    then have "trace ?st1 = trace st0 @ []" by (simp add: resume_fresh)
    with True show thesis by (intro that [of "[]"]) simp_all
  next
    case False
    from resume_trace [OF False, of L st0] obtain t where
      t: "trace ?st1 = trace st0 @ Torch_load (checkpoint_path A (load_step A)) # t"
         "filter (\<lambda>e. phase e \<noteq> 5) t = []" by blast
    with False show thesis
      by (intro that [of "Torch_load (checkpoint_path A (load_step A)) # t"]) simp_all
  qed
  show thesis
  proof (cases "fst (resume L A st0) = None")
    case False
    with x have r: "r \<noteq> None" "st = ?st1" by (simp_all add: prod_eq_iff)
    have 5: "trace st = setup_trace L A ws @ tr_r @ []" using r tr_r(1) t0 by simp
    show thesis
      by (rule that [OF w ws 5 tr_r(2,3,4)]) (simp_all add: r)
  next
    case True
    let ?es = "epoch_range A ?st1"
    from True x have rs: "r = fst (epoch_loop L A ?es ?st1)" "st = snd (epoch_loop L A ?es ?st1)"
      by (simp_all add: prod_eq_iff)
    obtain tr_l where l: "trace (snd (epoch_loop L A ?es ?st1)) = trace ?st1 @ tr_l"
      "step_groups (filter is_step_event tr_l)"
      "sched_then_opt (filter is_sched_or_opt tr_l)"
      "forward_batches tr_l = concat (map (train_loader L) (set_epochs tr_l))"
      "opt_levels tr_l = []"
      "filter (\<lambda>e. phase e \<noteq> 6) tr_l = []"
      "local_rank A > 0 \<longrightarrow> filter beyond_training tr_l = []"
      "set_epochs tr_l = take (length (set_epochs tr_l)) ?es"
      "fst (epoch_loop L A ?es ?st1) = None \<longrightarrow> set_epochs tr_l = ?es"
      using epoch_loop_segment [of L A ?es ?st1] by (elim exE conjE) (rule that; assumption)
    have ge: "global_epoch st = global_epoch ?st1"
      using rs(2) by (simp add: epoch_loop_global_epoch)
    have es: "?es = [global_epoch st + 1 .. epochs A]" by (simp add: epoch_range_def ge)
    have 5: "trace st = setup_trace L A ws @ tr_r @ tr_l" using rs(2) l(1) tr_r(1) t0 by simp
    have 15: "set_epochs tr_l = take (length (set_epochs tr_l)) [global_epoch st + 1 .. epochs A]"
      using l(8) es by simp
    have 16: "r = None \<longrightarrow> set_epochs tr_l = [global_epoch st + 1 .. epochs A]"
      using l(9) es rs(1) by simp
    show thesis
      by (rule that [OF w ws 5 tr_r(2,3,4) l(2,3,4,5,6,7) 15 16])
  qed
qed

subsection \<open>A run on the small library\<close>


lemma toy_run_rank1_main:
  "main toy_lib (toy_args\<lparr>local_rank := 1\<rparr>) toy_environ empty_disk = Inr toy_run_rank1"
proof -
  have "\<not> isl (main toy_lib (toy_args\<lparr>local_rank := 1\<rparr>) toy_environ empty_disk)" by code_simp
  then show ?thesis by (simp add: toy_run_rank1_def)
qed


lemma toy_run_rank1_trace:
  "trace (snd toy_run_rank1) =
  [Parse_args, Init_process_group 2 1, Set_device 1,
   New_dataset ''./DATASETS/ljspeech/'' True,
   New_dataset ''./DATASETS/ljspeech/'' False, New_sampler,
   New_loader Train_loader, New_loader Test_loader, New_loader Synth_loader,
   New_model False, New_Adam (1 / 1000), New_StepLR 100000 (1 / 2),
   Init_forward 1, Amp_init ''O0'', Wrap_DDP, Set_epoch 1, Model_train,
   Scheduler_step, Zero_grad, Forward 1 0 0, Scaled_backward 0,
   Clip_grad_norm 1, Optimizer_step, Scheduler_step, Zero_grad,
   Forward 2 1 0, Scaled_backward (- 1), Clip_grad_norm 1, Optimizer_step,
   Gc_collect, Gc_collect]"
  unfolding toy_run_rank1_def by code_simp

lemma toy_run_result: "fst toy_run = None" "fst toy_run_rank1 = None"
  unfolding toy_run_def toy_run_rank1_def by code_simp+

section \<open>The claims\<close>














lemma main_files_rank_pos:
  assumes "main L A environ D = Inr (r, st)" "local_rank A > 0"
  shows "ckpt_files st = d_ckpt_files D" "npy_files st = d_npy_files D"
    "log_files st = d_log_files D" "wav_files st = d_wav_files D"
proof -
  from assms(1) obtain ws tr st0 where s: "startup L A environ = Inr (ws, tr)"
    and i: "main_init L A ws tr D = Inr st0"
    and x: "(r, st) = (if fst (resume L A st0) = None
          then epoch_loop L A (epoch_range A (snd (resume L A st0))) (snd (resume L A st0))
          else resume L A st0)"
    by (rule main_InrE)
  note f0 = main_init_Inr(7,8,9,10) [OF i]
  let ?st1 = "snd (resume L A st0)"
  have st: "st = ?st1 \<or> st = snd (epoch_loop L A (epoch_range A ?st1) ?st1)"
    using x by (auto simp: prod_eq_iff split: if_splits)
  then show "ckpt_files st = d_ckpt_files D" "npy_files st = d_npy_files D"
    "log_files st = d_log_files D" "wav_files st = d_wav_files D"
    using f0 by (auto simp: resume_files epoch_loop_rank_pos [OF assms(2)])
qed

lemma rank0_dirs_other: "local_rank A \<noteq> 0 \<Longrightarrow> rank0_dirs L A = []"
  by (simp add: rank0_dirs_def)

text \<open>
  C8. A process whose \<open>local_rank\<close> is positive only trains in every pass of the epoch
  loop: after \<^verbatim>\<open>train\<close> it collects garbage and goes on to the next epoch; over the
  whole loop, and over the whole run, it neither evaluates nor synthesizes nor writes a
  checkpoint, a sample, a loss history, the log or a directory, and it leaves every file
  as it found it. A process whose \<open>local_rank\<close> is not 0 creates no directory at
  startup; the process of rank 0 creates those of the six paths that are not yet
  directories.
\<close>

theorem rank_gating:
  "(local_rank A > 0 \<longrightarrow>
      epoch_body L A epoch st =
        (if train_loader L epoch = [] then (Some ZeroDivisionError, snd (train L epoch st))
         else (None, emit Gc_collect (snd (train L epoch st))))
      \<and> filter beyond_training (since st (snd (epoch_loop L A es st))) = []
      \<and> ckpt_files (snd (epoch_loop L A es st)) = ckpt_files st
      \<and> npy_files (snd (epoch_loop L A es st)) = npy_files st
      \<and> log_files (snd (epoch_loop L A es st)) = log_files st
      \<and> wav_files (snd (epoch_loop L A es st)) = wav_files st)
   \<and> (local_rank A > 0 \<and> main L A environ D = Inr (r, st') \<longrightarrow>
        filter beyond_training (trace st') = []
        \<and> ckpt_files st' = d_ckpt_files D \<and> npy_files st' = d_npy_files D
        \<and> log_files st' = d_log_files D \<and> wav_files st' = d_wav_files D)
   \<and> (local_rank A \<noteq> 0 \<longrightarrow> rank0_dirs L A = [])
   \<and> (local_rank A = 0 \<longrightarrow>
        rank0_dirs L A =
          ensure_dir L (path_join (save A) (model_name A))
            (ensure_dir L (path_join (sample_path A) (model_name A))
              (ensure_dir L (sample_path A)
                (ensure_dir L (loss_dir A)
                  (ensure_dir L (save A)
                    (ensure_dir L (log_dir A) []))))))"
proof -
  have 1: "epoch_body L A epoch st =
        (if train_loader L epoch = [] then (Some ZeroDivisionError, snd (train L epoch st))
         else (None, emit Gc_collect (snd (train L epoch st))))
      \<and> filter beyond_training (since st (snd (epoch_loop L A es st))) = []
      \<and> ckpt_files (snd (epoch_loop L A es st)) = ckpt_files st
      \<and> npy_files (snd (epoch_loop L A es st)) = npy_files st
      \<and> log_files (snd (epoch_loop L A es st)) = log_files st
      \<and> wav_files (snd (epoch_loop L A es st)) = wav_files st"
    if rank: "local_rank A > 0"
  proof -
    have a: "epoch_body L A epoch st =
        (if train_loader L epoch = [] then (Some ZeroDivisionError, snd (train L epoch st))
         else (None, emit Gc_collect (snd (train L epoch st))))"
      using rank by (simp add: epoch_body_cases)
    obtain tr where tr: "trace (snd (epoch_loop L A es st)) = trace st @ tr"
      "local_rank A > 0 \<longrightarrow> filter beyond_training tr = []"
      using epoch_loop_segment [of L A es st] by (elim exE conjE) (rule that; assumption)
    from tr(1) have "since st (snd (epoch_loop L A es st)) = tr" by (rule since_append)
    with tr(2) rank have b: "filter beyond_training (since st (snd (epoch_loop L A es st))) = []"
      by simp
    note f = epoch_loop_rank_pos(1,2,3,4) [OF rank, of L es st]
    from a b f show ?thesis by simp
  qed
  have 2: "filter beyond_training (trace st') = []
        \<and> ckpt_files st' = d_ckpt_files D \<and> npy_files st' = d_npy_files D
        \<and> log_files st' = d_log_files D \<and> wav_files st' = d_wav_files D"
    if h: "local_rank A > 0 \<and> main L A environ D = Inr (r, st')"
  proof -
    from h have rank: "local_rank A > 0" and m: "main L A environ D = Inr (r, st')" by simp_all
    from m obtain w0 tr_r tr_l where
      t: "trace st' = setup_trace L A w0 @ tr_r @ tr_l"
      and r5: "filter (\<lambda>e. phase e \<noteq> 5) tr_r = []"
      and l: "local_rank A > 0 \<longrightarrow> filter beyond_training tr_l = []"
      by (rule main_trace)
    from phase5_quiet [OF r5] have q: "filter beyond_training tr_r = []" by simp
    have d: "rank0_dirs L A = []" using rank by (simp add: rank0_dirs_def)
    have "filter beyond_training (trace st') = []"
      using l q rank by (simp add: t setup_trace_props d)
    with main_files_rank_pos [OF m rank] show ?thesis by simp
  qed
  have 3: "rank0_dirs L A = []" if "local_rank A \<noteq> 0"
    using that by (rule rank0_dirs_other)
  have 4: "rank0_dirs L A =
          ensure_dir L (path_join (save A) (model_name A))
            (ensure_dir L (path_join (sample_path A) (model_name A))
              (ensure_dir L (sample_path A)
                (ensure_dir L (loss_dir A)
                  (ensure_dir L (save A)
                    (ensure_dir L (log_dir A) [])))))" if "local_rank A = 0"
    using that by (simp add: rank0_dirs_def Let_def)
  note i1 = impI [OF 1] and i2 = impI [OF 2] and i3 = impI [OF 3] and i4 = impI [OF 4]
  show ?thesis
    by (rule conjI [OF i1 conjI [OF i2 conjI [OF i3 i4]]])
qed

theorem rank_gating_witness:
  "local_rank (toy_args\<lparr>local_rank := 1\<rparr>) > 0
   \<and> local_rank (toy_args\<lparr>local_rank := 1\<rparr>) \<noteq> 0
   \<and> local_rank toy_args = 0
   \<and> main toy_lib (toy_args\<lparr>local_rank := 1\<rparr>) toy_environ empty_disk
        = Inr (fst toy_run_rank1, snd toy_run_rank1)
   \<and> filter beyond_training (trace (snd toy_run_rank1)) = []
   \<and> set_epochs (trace (snd toy_run_rank1)) = [1]
   \<and> log_files (snd toy_run_rank1) = Map.empty
   \<and> npy_files (snd toy_run_rank1) = Map.empty
   \<and> ckpt_files (snd toy_run_rank1) = Map.empty
   \<and> rank0_dirs toy_lib (toy_args\<lparr>local_rank := 1\<rparr>) = []
   \<and> rank0_dirs toy_lib toy_args =
       [''./log'', ''./params'', ''./loss'', ''./samples'', ''./samples/flowavenet'',
        ''./params/flowavenet'']"
proof -
  let ?A = "toy_args\<lparr>local_rank := 1\<rparr>"
  have r1: "local_rank ?A > 0" "local_rank ?A \<noteq> 0" by simp_all
  have r0: "local_rank toy_args = 0" by (simp add: toy_args_def default_args_def)
  have m: "main toy_lib ?A toy_environ empty_disk = Inr (fst toy_run_rank1, snd toy_run_rank1)"
    by (simp add: toy_run_rank1_main)
  note t1 = rank_gating [where L = toy_lib and A = ?A and environ = toy_environ
      and D = empty_disk and r = "fst toy_run_rank1" and st' = "snd toy_run_rank1"
      and st = toy_state and epoch = 1 and es = "[]"]
  note t0 = rank_gating [where L = toy_lib and A = toy_args and environ = toy_environ
      and D = empty_disk and r = "fst toy_run" and st' = "snd toy_run"
      and st = toy_state and epoch = 1 and es = "[]"]
  from t1 r1 m have a: "filter beyond_training (trace (snd toy_run_rank1)) = []"
    "ckpt_files (snd toy_run_rank1) = d_ckpt_files empty_disk"
    "npy_files (snd toy_run_rank1) = d_npy_files empty_disk"
    "log_files (snd toy_run_rank1) = d_log_files empty_disk"
    "rank0_dirs toy_lib ?A = []"
    by blast+
  have e: "set_epochs (trace (snd toy_run_rank1)) = [1]" by (simp add: toy_run_rank1_trace)
  from t0 r0 have "rank0_dirs toy_lib toy_args =
          ensure_dir toy_lib (path_join (save toy_args) (model_name toy_args))
            (ensure_dir toy_lib (path_join (sample_path toy_args) (model_name toy_args))
              (ensure_dir toy_lib (sample_path toy_args)
                (ensure_dir toy_lib (loss_dir toy_args)
                  (ensure_dir toy_lib (save toy_args)
                    (ensure_dir toy_lib (log_dir toy_args) [])))))"
    by blast
  then have d: "rank0_dirs toy_lib toy_args =
       [''./log'', ''./params'', ''./loss'', ''./samples'', ''./samples/flowavenet'',
        ''./params/flowavenet'']"
    by (simp add: ensure_dir_def toy_lib_def toy_args_def default_args_def path_join_def)
  from r1 r0 m a e d show ?thesis by (simp add: empty_disk_def)
qed

end
